theory Spec2Isabelle
  imports Complex_Main "HOL-Library.Sublist" "HOL-Library.AList" "HOL-Library.Log_Nat"
begin

chapter \<open>The catalog generators of neopilot-ai/models\<close>

text \<open>
  A model of the decision logic of three generator scripts of the repository: the
  inclusion filter of the Cloudflare AI Gateway shell scripts, and the merge
  function, the change detector and the main loop of the Venice and of the Vercel
  script. The definitions follow the source function by function; the properties
  come after all definitions.
\<close>

section \<open>Strings\<close>

text \<open>
  Strings are lists of characters. \<open>toLowerCase\<close> is JavaScript's
  \<^verbatim>\<open>String.prototype.toLowerCase\<close> on ASCII text: the letters A to Z are mapped to
  a to z, every other character is kept. \<open>str_includes t s\<close> is \<^verbatim>\<open>t.includes(s)\<close>
  (and the bash test \<^verbatim>\<open>[[ t == *"s"* ]]\<close>): \<open>s\<close> occurs in \<open>t\<close> as a contiguous
  block. \<open>prefix\<close> is the library's.
\<close>

definition lowerChar :: "char \<Rightarrow> char" where
  "lowerChar c =
     (case map_of (zip ''ABCDEFGHIJKLMNOPQRSTUVWXYZ'' ''abcdefghijklmnopqrstuvwxyz'') c of
        None \<Rightarrow> c
      | Some d \<Rightarrow> d)"

definition toLowerCase :: "string \<Rightarrow> string" where
  "toLowerCase s = map lowerChar s"

fun str_includes :: "string \<Rightarrow> string \<Rightarrow> bool" where
  "str_includes [] s = (s = [])"
| "str_includes (c # t) s = (prefix s (c # t) \<or> str_includes t s)"

section \<open>The inclusion filter of the Cloudflare AI Gateway scripts\<close>

text \<open>
  \<^verbatim>\<open>providers/cloudflare-ai-gateway/scripts/utils.sh\<close>. The configuration variables are
  whitespace-separated word lists, iterated with \<^verbatim>\<open>for x in ${VAR}\<close>; the well-known
  models are an array of extended regular expressions. The backslash of the bracket
  expressions is the character with code 0x5C.
\<close>

definition INCLUDE_ALL_PROVIDERS :: "string list" where
  "INCLUDE_ALL_PROVIDERS = [''workers-ai'']"

definition SKIP_NAMESPACES :: "string list" where
  "SKIP_NAMESPACES = [''replicate/replicate-internal'']"

definition SKIP_MODELS :: "string list" where
  "SKIP_MODELS = [''aura-1'', ''whisper'']"

definition dotOrHyphen :: string where
  "dotOrHyphen = ''['' @ [CHR 0x5C] @ ''.-]''"

definition WELL_KNOWN_MODELS :: "string list" where
  "WELL_KNOWN_MODELS =
    [''openai/gpt-5'' @ dotOrHyphen @ ''2$'',
     ''openai/gpt-5'' @ dotOrHyphen @ ''1$'',
     ''openai/gpt-5'' @ dotOrHyphen @ ''1-codex$'',
     ''openai/gpt-4o$'',
     ''openai/gpt-4o-mini$'',
     ''openai/gpt-4-turbo$'',
     ''openai/gpt-4$'',
     ''openai/gpt-3'' @ dotOrHyphen @ ''5-turbo$'',
     ''openai/o1$'',
     ''openai/o3$'',
     ''openai/o3-mini$'',
     ''openai/o3-pro$'',
     ''openai/o4-mini$'',
     ''anthropic/claude-sonnet-4-5$'',
     ''anthropic/claude-opus-4-6$'',
     ''anthropic/claude-opus-4-5$'',
     ''anthropic/claude-haiku-4-5$'',
     ''anthropic/claude-opus-4-1$'',
     ''anthropic/claude-sonnet-4$'',
     ''anthropic/claude-opus-4$'',
     ''anthropic/claude-3'' @ dotOrHyphen @ ''5-sonnet$'',
     ''anthropic/claude-3'' @ dotOrHyphen @ ''5-haiku$'',
     ''anthropic/claude-3-opus$'',
     ''anthropic/claude-3-sonnet$'',
     ''anthropic/claude-3-haiku$'']"

text \<open>
  \<open>grepE p t\<close> is \<^verbatim>\<open>echo "t" | grep -qE "^p"\<close> for a one-line text \<open>t\<close> and a
  pattern \<open>p\<close> of the fragment the table uses: literal characters, a bracket
  expression (inside which the backslash stands for itself) and a final \<open>$\<close>.
  The match is anchored at the start of the line by the \<open>^\<close> the caller prepends;
  without a final \<open>$\<close> any continuation of the line is accepted.
\<close>

function grepE :: "string \<Rightarrow> string \<Rightarrow> bool" where
  "grepE [] t = True"
| "grepE (a # p) t =
     (if a = CHR ''$'' \<and> p = [] then t = []
      else if a = CHR ''['' then
        (case t of
           [] \<Rightarrow> False
         | c # t' \<Rightarrow> c \<in> set (takeWhile (\<lambda>x. x \<noteq> CHR '']'') p)
                     \<and> grepE (drop 1 (dropWhile (\<lambda>x. x \<noteq> CHR '']'') p)) t')
      else
        (case t of
           [] \<Rightarrow> False
         | c # t' \<Rightarrow> c = a \<and> grepE p t'))"
  by pat_completeness auto
termination
  by (relation "measure (\<lambda>(p, t). length p)")
     (auto simp: less_Suc_eq_le intro: le_trans [OF diff_le_self length_dropWhile_le])

text \<open>The first path segment: \<^verbatim>\<open>echo "${model_id}" | cut -d'/' -f1\<close>.\<close>

definition providerOf :: "string \<Rightarrow> string" where
  "providerOf model_id = takeWhile (\<lambda>c. c \<noteq> CHR ''/'') model_id"

definition matchesSkipModel :: "string \<Rightarrow> bool" where
  "matchesSkipModel model_id = (\<exists>skip \<in> set SKIP_MODELS. str_includes model_id skip)"

definition inSkippedNamespace :: "string \<Rightarrow> bool" where
  "inSkippedNamespace model_id = (\<exists>ns \<in> set SKIP_NAMESPACES. prefix (ns @ ''/'') model_id)"

definition matchesWellKnown :: "string \<Rightarrow> bool" where
  "matchesWellKnown model_id = (\<exists>pattern \<in> set WELL_KNOWN_MODELS. grepE pattern model_id)"

text \<open>
  \<open>should_include_model\<close> returns \<open>True\<close> where the shell function returns 0
  (include) and \<open>False\<close> where it returns 1 (exclude). The include-all loop returns
  from inside its body, so a provider of that list never reaches the well-known
  patterns.
\<close>

definition should_include_model :: "string \<Rightarrow> bool" where
  "should_include_model model_id =
     (let provider = providerOf model_id in
      if matchesSkipModel model_id then False
      else if inSkippedNamespace model_id then False
      else if provider \<in> set INCLUDE_ALL_PROVIDERS then
        (if provider = ''workers-ai'' \<and> \<not> prefix ''workers-ai/@cf/'' model_id then False
         else True)
      else if matchesWellKnown model_id then True
      else False)"

section \<open>JavaScript values shared by the generator scripts\<close>

text \<open>
  A JavaScript number is a double. The model holds a number as a rational, which
  for a double is its value; NaN and the infinities are outside the model. The
  scripts mostly copy and compare numbers, and so does the model, as they are.
  Where the rounding of doubles decides the result, in the price comparison of
  the Vercel change detector, the model rounds as IEEE 754 does (\<open>binary64\<close>
  below); the products \<^verbatim>\<open>parseFloat(price) * 1_000_000\<close> and \<^verbatim>\<open>timestamp * 1000\<close> are
  taken exactly. An optional property is an
  \<open>option\<close>, \<open>None\<close> standing for \<^verbatim>\<open>undefined\<close>. \<open>coalesce\<close> is the operator
  \<^verbatim>\<open>??\<close>; \<open>truthyString\<close> and \<open>truthyNumber\<close> are the truth value JavaScript gives
  to an optional string or number in a condition (the empty string and 0 are
  false, as \<^verbatim>\<open>undefined\<close> is).
\<close>

type_synonym number = rat

definition coalesce :: "'a option \<Rightarrow> 'a \<Rightarrow> 'a" where
  "coalesce v d = (case v of None \<Rightarrow> d | Some x \<Rightarrow> x)"

definition truthyString :: "string option \<Rightarrow> bool" where
  "truthyString v = (case v of None \<Rightarrow> False | Some s \<Rightarrow> s \<noteq> [])"

definition truthyNumber :: "number option \<Rightarrow> bool" where
  "truthyNumber v = (case v of None \<Rightarrow> False | Some n \<Rightarrow> n \<noteq> 0)"

subsection \<open>Rounding to a double\<close>

text \<open>
  IEEE 754 binary64 rounding, to the nearest double with ties to the even
  mantissa. \<open>exponent x\<close> is the binary exponent of a positive \<open>x\<close>, the \<open>e\<close> with
  \<open>2 powi e \<le> x < 2 powi (e + 1)\<close>. The doubles of that binade are the multiples of
  \<open>2 powi (e - 52)\<close>, and below the smallest normal number, \<open>2 powi (- 1022)\<close>, the
  multiples of \<open>2 powi (- 1074)\<close>. \<open>binary64 x\<close> is the double nearest to \<open>x\<close>: the
  number a decimal literal \<open>x\<close> denotes in a script, in JSON and in TOML, and the
  result of an arithmetic operation whose exact result is \<open>x\<close>. A value that IEEE
  rounds to an infinity (\<open>2 powi 1024\<close> and beyond) is outside the model.
\<close>

definition roundHalfEven :: "rat \<Rightarrow> int" where
  "roundHalfEven q =
     (let f = \<lfloor>q\<rfloor>; r = q - of_int f
      in if r < 1 / 2 then f else if 1 / 2 < r then f + 1 else if even f then f else f + 1)"

definition exponent :: "rat \<Rightarrow> int" where
  "exponent x =
     (let k = bitlen (fst (quotient_of x)) - bitlen (snd (quotient_of x))
      in if 2 powi k \<le> x then k else k - 1)"

definition binary64 :: "rat \<Rightarrow> number" where
  "binary64 x =
     (if x = 0 then 0
      else let ulp = 2 powi (max (exponent \<bar>x\<bar>) (- 1022) - 52)
           in sgn x * (ulp * of_int (roundHalfEven (\<bar>x\<bar> / ulp))))"

subsection \<open>The family table\<close>

text \<open>\<^verbatim>\<open>ModelFamilyValues\<close> of \<^verbatim>\<open>packages/core/src/family.ts\<close>, in the order of the source.\<close>

definition ModelFamilyValues :: "string list" where
  "ModelFamilyValues =
    [''trinity'', ''trinity-mini'', ''gpt'', ''gpt-codex'', ''gpt-codex-spark'',
     ''gpt-codex-mini'', ''gpt-pro'', ''gpt-mini'', ''gpt-nano'', ''gpt-oss'', ''o'',
     ''o-mini'', ''o-pro'', ''claude'', ''claude-haiku'', ''claude-sonnet'',
     ''claude-opus'', ''gemini'', ''gemini-pro'', ''gemini-flash'', ''gemini-flash-lite'',
     ''gemini-embedding'', ''glm'', ''glmv'', ''glm-air'', ''glm-flash'', ''glm-free'',
     ''glm-z'', ''llama'', ''qwen'', ''deepseek'', ''deepseek-thinking'', ''phi'', ''kimi'',
     ''kimi-free'', ''kimi-thinking'', ''mistral'', ''mistral-large'', ''mistral-medium'',
     ''mistral-small'', ''mistral-nemo'', ''ministral'', ''codestral'', ''devstral'',
     ''pixtral'', ''mixtral'', ''grok'', ''grok-vision'', ''grok-beta'', ''gemma'',
     ''nova'', ''nova-pro'', ''nova-lite'', ''nova-micro'', ''command'', ''command-r'',
     ''command-a'', ''command-light'', ''jamba'', ''nemotron'', ''titan'', ''titan-embed'',
     ''minimax'', ''minimax-free'', ''hunyuan'', ''yi'', ''granite'', ''reka'', ''sonar'',
     ''sonar-pro'', ''sonar-reasoning'', ''sonar-deep-research'', ''solar'', ''solar-mini'',
     ''solar-pro'', ''exaone'', ''step'', ''text-embedding'', ''cohere-embed'', ''voyage'',
     ''mistral-embed'', ''bge'', ''plamo'', ''codestral-embed'', ''dall-e'', ''flux'',
     ''imagen'', ''recraft'', ''stable-diffusion'', ''ideogram'', ''dreamshaper'', ''sora'',
     ''veo'', ''runway'', ''dream-machine'', ''whisper'', ''elevenlabs'', ''lyria'',
     ''melotts'', ''ernie'', ''hermes'', ''zephyr'', ''openchat'', ''starling'', ''qvq'',
     ''sherlock'', ''pony'', ''mercury'', ''cogito'', ''mimo'', ''longcat'', ''magistral'',
     ''magistral-small'', ''magistral-medium'', ''phoenix'', ''trinity'', ''lucid'',
     ''intellect'', ''aura'', ''jais'', ''sarvam'', ''falcon'', ''baichuan'', ''skywork'',
     ''bart'', ''distilbert'', ''resnet'', ''m2m'', ''indictrans'', ''llava'', ''seed'',
     ''ray'', ''tstars'', ''rnj'', ''ling'', ''ring'', ''kat-coder'', ''sqlcoder'',
     ''discolm'', ''osmosis'', ''parakeet'', ''nemoretriever'', ''nano-banana'',
     ''una-cybertron'', ''morph'', ''voxtral'', ''venice'', ''auto'', ''model-router'',
     ''v0'', ''tako'', ''mai'', ''rednote'', ''smart-turn'', ''qwerky'', ''big-pickle'',
     ''chutesai'', ''opengvlab'', ''tngtech'', ''topazlabs'', ''unsloth'', ''nousresearch'',
     ''alpha'', ''oswe'', ''neural-chat'', ''pangu'', ''liquid'', ''sourceful'',
     ''allenai'', ''palmyra'']"

text \<open>
  \<^verbatim>\<open>[...ModelFamilyValues].sort((a, b) => b.length - a.length)\<close>: longest names first;
  the sort is stable, as is the insertion sort \<open>sort_key\<close>.
\<close>

definition sortedFamilies :: "string list" where
  "sortedFamilies = sort_key (\<lambda>family. - int (length family)) ModelFamilyValues"

text \<open>
  \<open>matchesFamily\<close>: the family name, in lower case, is a subsequence of the target in
  lower case. \<open>scanFamily\<close> is the loop; its second argument is the part of the family
  name from \<^verbatim>\<open>familyIdx\<close> on, so the loop ends with \<^verbatim>\<open>familyIdx === familyLower.length\<close>
  exactly when that part is empty.
\<close>

fun scanFamily :: "string \<Rightarrow> string \<Rightarrow> bool" where
  "scanFamily target [] = True"
| "scanFamily [] (x # family) = False"
| "scanFamily (c # target) (x # family) =
     (if c = x then scanFamily target family else scanFamily target (x # family))"

definition matchesFamily :: "string \<Rightarrow> string \<Rightarrow> bool" where
  "matchesFamily target family = scanFamily (toLowerCase target) (toLowerCase family)"

definition isSubstring :: "string \<Rightarrow> string \<Rightarrow> bool" where
  "isSubstring target family = str_includes (toLowerCase target) (toLowerCase family)"

subsection \<open>Persisted and merged records\<close>

text \<open>
  \<open>ExistingModel\<close> is what \<^verbatim>\<open>loadExistingModel\<close> returns for a parsed TOML file, every
  property optional. The Venice script declares the interface below; the Vercel
  script declares the same interface without \<^verbatim>\<open>cost.reasoning\<close>,
  \<^verbatim>\<open>cost.context_over_200k\<close>, \<^verbatim>\<open>limit.input\<close> and \<^verbatim>\<open>provider\<close>, which it never reads.
  \<open>MergedModel\<close> is the result of \<^verbatim>\<open>mergeModel\<close>; the Vercel script's interface has no
  \<^verbatim>\<open>cost.context_over_200k\<close> and its \<^verbatim>\<open>mergeModel\<close> never sets it.
\<close>

datatype interleaved = Flag bool | Field string

record ExistingCostTier =
  ect_input :: "number option"
  ect_output :: "number option"
  ect_cache_read :: "number option"
  ect_cache_write :: "number option"

record ExistingCost =
  ec_input :: "number option"
  ec_output :: "number option"
  ec_reasoning :: "number option"
  ec_cache_read :: "number option"
  ec_cache_write :: "number option"
  ec_context_over_200k :: "ExistingCostTier option"

record ExistingLimit =
  el_context :: "number option"
  el_input :: "number option"
  el_output :: "number option"

record ExistingModalities =
  emod_input :: "string list option"
  emod_output :: "string list option"

record ExistingProvider =
  ep_npm :: "string option"
  ep_api :: "string option"

record ExistingModel =
  e_name :: "string option"
  e_family :: "string option"
  e_attachment :: "bool option"
  e_reasoning :: "bool option"
  e_tool_call :: "bool option"
  e_structured_output :: "bool option"
  e_temperature :: "bool option"
  e_knowledge :: "string option"
  e_release_date :: "string option"
  e_last_updated :: "string option"
  e_open_weights :: "bool option"
  e_interleaved :: "interleaved option"
  e_status :: "string option"
  e_cost :: "ExistingCost option"
  e_limit :: "ExistingLimit option"
  e_modalities :: "ExistingModalities option"
  e_provider :: "ExistingProvider option"

record MergedCostTier =
  mct_input :: number
  mct_output :: number
  mct_cache_read :: "number option"
  mct_cache_write :: "number option"

record MergedCost =
  mc_input :: number
  mc_output :: number
  mc_cache_read :: "number option"
  mc_cache_write :: "number option"
  mc_context_over_200k :: "MergedCostTier option"

record MergedLimit =
  ml_context :: number
  ml_output :: number

record MergedModalities =
  mmod_input :: "string list"
  mmod_output :: "string list"

record MergedModel =
  m_name :: string
  m_family :: "string option"
  m_attachment :: bool
  m_reasoning :: bool
  m_tool_call :: bool
  m_structured_output :: "bool option"
  m_temperature :: bool
  m_knowledge :: "string option"
  m_release_date :: string
  m_last_updated :: string
  m_open_weights :: bool
  m_interleaved :: "interleaved option"
  m_status :: "string option"
  m_cost :: "MergedCost option"
  m_limit :: MergedLimit
  m_modalities :: MergedModalities

text \<open>
  A change keeps the two values it was computed from; the text \<^verbatim>\<open>formatValue\<close> prints
  for them is not modelled. On the values of the compared fields (strings, booleans,
  numbers, arrays of strings, \<^verbatim>\<open>undefined\<close>) \<^verbatim>\<open>JSON.stringify\<close> is injective, so
  \<^verbatim>\<open>JSON.stringify(oldVal) !== JSON.stringify(newVal)\<close> is \<open>oldVal \<noteq> newVal\<close>.
\<close>

datatype jsvalue =
  JUndefined | JString string | JBoolean bool | JNumber number | JArray "string list"

definition ofString :: "string option \<Rightarrow> jsvalue" where
  "ofString v = (case v of None \<Rightarrow> JUndefined | Some s \<Rightarrow> JString s)"

definition ofBoolean :: "bool option \<Rightarrow> jsvalue" where
  "ofBoolean v = (case v of None \<Rightarrow> JUndefined | Some b \<Rightarrow> JBoolean b)"

definition ofNumber :: "number option \<Rightarrow> jsvalue" where
  "ofNumber v = (case v of None \<Rightarrow> JUndefined | Some n \<Rightarrow> JNumber n)"

definition ofArray :: "string list option \<Rightarrow> jsvalue" where
  "ofArray v = (case v of None \<Rightarrow> JUndefined | Some a \<Rightarrow> JArray a)"

record Changes =
  field :: string
  oldValue :: jsvalue
  newValue :: jsvalue

text \<open>
  A merged record read as a persisted one: \<^verbatim>\<open>MergedModel\<close> is structurally an
  \<^verbatim>\<open>ExistingModel\<close> with the required properties present.
\<close>

definition asExistingTier :: "MergedCostTier \<Rightarrow> ExistingCostTier" where
  "asExistingTier t =
     \<lparr>ect_input = Some (mct_input t), ect_output = Some (mct_output t),
      ect_cache_read = mct_cache_read t, ect_cache_write = mct_cache_write t\<rparr>"

definition asExistingCost :: "MergedCost \<Rightarrow> ExistingCost" where
  "asExistingCost c =
     \<lparr>ec_input = Some (mc_input c), ec_output = Some (mc_output c), ec_reasoning = None,
      ec_cache_read = mc_cache_read c, ec_cache_write = mc_cache_write c,
      ec_context_over_200k = map_option asExistingTier (mc_context_over_200k c)\<rparr>"

definition asExisting :: "MergedModel \<Rightarrow> ExistingModel" where
  "asExisting m =
     \<lparr>e_name = Some (m_name m), e_family = m_family m,
      e_attachment = Some (m_attachment m), e_reasoning = Some (m_reasoning m),
      e_tool_call = Some (m_tool_call m), e_structured_output = m_structured_output m,
      e_temperature = Some (m_temperature m), e_knowledge = m_knowledge m,
      e_release_date = Some (m_release_date m), e_last_updated = Some (m_last_updated m),
      e_open_weights = Some (m_open_weights m), e_interleaved = m_interleaved m,
      e_status = m_status m, e_cost = map_option asExistingCost (m_cost m),
      e_limit = Some \<lparr>el_context = Some (ml_context (m_limit m)), el_input = None,
                       el_output = Some (ml_output (m_limit m))\<rparr>,
      e_modalities = Some \<lparr>emod_input = Some (mmod_input (m_modalities m)),
                            emod_output = Some (mmod_output (m_modalities m))\<rparr>,
      e_provider = None\<rparr>"

subsection \<open>The schema of a persisted record\<close>

text \<open>
  \<^verbatim>\<open>packages/core/src/schema.ts\<close> is the schema every model file of the repository
  is validated against. Of the object \<^verbatim>\<open>Model\<close>, the two properties that the merge
  functions test for truthiness: \<^verbatim>\<open>knowledge\<close>, an optional string matching
  \<^verbatim>\<open>/^\d{4}-\d{2}(-\d{2})?$/\<close>, and \<^verbatim>\<open>status\<close>, an optional member of the enumeration
  \<^verbatim>\<open>["alpha", "beta", "deprecated"]\<close>. \<open>schemaAccepts existing\<close> says that the two
  properties of an existing record, where they are set, are what the schema
  accepts; the absent record (\<^verbatim>\<open>null\<close>) has nothing to accept.
\<close>

definition asciiDigit :: "char \<Rightarrow> bool" where
  "asciiDigit c = (c \<in> set ''0123456789'')"

definition matchesDate :: "string \<Rightarrow> bool" where
  "matchesDate s =
     (let year = take 4 s; month = take 3 (drop 4 s); day = drop 7 s
      in length year = 4 \<and> list_all asciiDigit year
         \<and> length month = 3 \<and> hd month = CHR ''-'' \<and> list_all asciiDigit (tl month)
         \<and> (day = [] \<or> length day = 3 \<and> hd day = CHR ''-'' \<and> list_all asciiDigit (tl day)))"

definition StatusValues :: "string list" where
  "StatusValues = [''alpha'', ''beta'', ''deprecated'']"

definition schemaAccepts :: "ExistingModel option \<Rightarrow> bool" where
  "schemaAccepts existing =
     (case existing of
        None \<Rightarrow> True
      | Some e \<Rightarrow>
          (case e_knowledge e of None \<Rightarrow> True | Some k \<Rightarrow> matchesDate k)
          \<and> (case e_status e of None \<Rightarrow> True | Some st \<Rightarrow> st \<in> set StatusValues))"

subsection \<open>The platform and the store\<close>

text \<open>
  A file of the models directory either parses as TOML or does not. A file is
  addressed by its path relative to the models directory; an id of the source
  catalog is taken to be such a path in normal form, which \<^verbatim>\<open>path.join\<close> leaves as
  it is. The store is the list of the \<^verbatim>\<open>.toml\<close> files of the directory, as the
  directory scan returns them.
\<close>

datatype toml_file = Unparsable | Parsed ExistingModel

type_synonym store = "(string \<times> toml_file) list"

text \<open>
  Three functions are parameters of the model. \<open>toISOString\<close> is
  \<^verbatim>\<open>new Date(ms).toISOString()\<close>, with \<open>None\<close> for the RangeError it throws on a time
  value outside the range of \<^verbatim>\<open>Date\<close>; \<open>parseFloat\<close> is the global function of that
  name; \<open>reparse\<close> is what a later \<^verbatim>\<open>loadExistingModel\<close> finds in a file into which
  \<^verbatim>\<open>formatToml(merged)\<close> was written (the text itself is not modelled). The date
  of the run, \<^verbatim>\<open>getTodayDate()\<close>, is the argument \<open>today\<close> of the functions that
  read the clock.
\<close>

record platform =
  toISOString :: "number \<Rightarrow> string option"
  parseFloat :: "string \<Rightarrow> number"
  reparse :: "MergedModel \<Rightarrow> toml_file"

definition timestampToDate :: "platform \<Rightarrow> number \<Rightarrow> string option" where
  "timestampToDate P timestamp = map_option (take 10) (toISOString P (timestamp * 1000))"

text \<open>
  \<open>loadExistingModel\<close>: \<^verbatim>\<open>null\<close> when the file does not exist and, after a warning,
  when it cannot be parsed.
\<close>

definition loadExistingModel :: "store \<Rightarrow> string \<Rightarrow> ExistingModel option" where
  "loadExistingModel files filePath =
     (case map_of files filePath of
        None \<Rightarrow> None
      | Some Unparsable \<Rightarrow> None
      | Some (Parsed toml) \<Rightarrow> Some toml)"

definition writeFile :: "platform \<Rightarrow> string \<Rightarrow> MergedModel \<Rightarrow> store \<Rightarrow> store" where
  "writeFile P filePath merged files = AList.update filePath (reparse P merged) files"

text \<open>
  The state of the loop of \<^verbatim>\<open>main\<close>: the store, the set \<^verbatim>\<open>apiModelIds\<close> and the three
  counters. \<open>rs_classified\<close> is a ghost variable: the outcome of every record the
  loop has classified, in order; the console output, which differs between the
  modes by its wording only, is not modelled.
\<close>

datatype outcome = Created | Updated "Changes list" | Unchanged

record RunState =
  rs_store :: store
  rs_apiModelIds :: "string set"
  rs_created :: nat
  rs_updated :: nat
  rs_unchanged :: nat
  rs_classified :: "(string \<times> outcome) list"

record Summary =
  s_created :: nat
  s_updated :: nat
  s_unchanged :: nat
  s_orphaned :: "string list"

definition initialState :: "store \<Rightarrow> RunState" where
  "initialState files =
     \<lparr>rs_store = files, rs_apiModelIds = {}, rs_created = 0, rs_updated = 0,
      rs_unchanged = 0, rs_classified = []\<rparr>"

text \<open>
  The orphan check and the summary line. \<open>existingFiles\<close> is the set the scan
  filled before the loop started.
\<close>

definition orphanedFiles :: "string list \<Rightarrow> string set \<Rightarrow> string list" where
  "orphanedFiles existingFiles apiModelIds = filter (\<lambda>file. file \<notin> apiModelIds) existingFiles"

definition summarize :: "string list \<Rightarrow> RunState \<Rightarrow> Summary" where
  "summarize existingFiles st =
     \<lparr>s_created = rs_created st, s_updated = rs_updated st, s_unchanged = rs_unchanged st,
      s_orphaned = orphanedFiles existingFiles (rs_apiModelIds st)\<rparr>"

section \<open>The Venice generator\<close>

text \<open>\<^verbatim>\<open>packages/core/script/generate-venice.ts\<close>: the validated shape of a source record.\<close>

record Capabilities =
  optimizedForCode :: "bool option"
  quantization :: "string option"
  supportsAudioInput :: "bool option"
  supportsFunctionCalling :: "bool option"
  supportsLogProbs :: "bool option"
  supportsReasoning :: "bool option"
  supportsResponseSchema :: "bool option"
  supportsVideoInput :: "bool option"
  supportsVision :: "bool option"
  supportsWebSearch :: "bool option"

record PricingTier =
  usd :: number
  diem :: "number option"

record ExtendedPricing =
  xp_context_token_threshold :: number
  xp_input :: PricingTier
  xp_output :: PricingTier
  xp_cache_input :: "PricingTier option"
  xp_cache_write :: "PricingTier option"

record Pricing =
  p_input :: PricingTier
  p_output :: PricingTier
  p_cache_input :: "PricingTier option"
  p_cache_write :: "PricingTier option"
  p_extended :: "ExtendedPricing option"

record ModelSpec =
  ms_pricing :: "Pricing option"
  ms_availableContextTokens :: number
  ms_capabilities :: Capabilities
  ms_name :: string
  ms_modelSource :: "string option"
  ms_offline :: "bool option"
  ms_privacy :: "string option"
  ms_traits :: "string list option"

record VeniceModel =
  vn_created :: number
  vn_id :: string
  vn_model_spec :: ModelSpec
  vn_object :: string
  vn_owned_by :: string
  vn_type :: string

text \<open>Venice infers the family by subsequence matching only: the id first, then the name.\<close>

definition venice_inferFamily :: "string \<Rightarrow> string \<Rightarrow> string option" where
  "venice_inferFamily modelId modelName =
     (case find (\<lambda>family. matchesFamily modelId family) sortedFamilies of
        Some family \<Rightarrow> Some family
      | None \<Rightarrow> find (\<lambda>family. matchesFamily modelName family) sortedFamilies)"

definition venice_buildInputModalities :: "Capabilities \<Rightarrow> string list" where
  "venice_buildInputModalities capabilities =
     [''text'']
     @ (if supportsVision capabilities = Some True then [''image''] else [])
     @ (if supportsAudioInput capabilities = Some True then [''audio''] else [])
     @ (if supportsVideoInput capabilities = Some True then [''video''] else [])"

text \<open>
  \<open>venice_mergeModel\<close> is \<open>None\<close> when \<^verbatim>\<open>timestampToDate(apiModel.created)\<close> throws;
  nothing else in the function can fail.
\<close>

definition venice_mergeModel ::
  "platform \<Rightarrow> string \<Rightarrow> VeniceModel \<Rightarrow> ExistingModel option \<Rightarrow> MergedModel option" where
  "venice_mergeModel P today apiModel existing =
     (let spec = vn_model_spec apiModel;
          caps = ms_capabilities spec;
          contextTokens = ms_availableContextTokens spec;
          proposedOutputTokens = of_int \<lfloor>contextTokens / 4\<rfloor>;
          outputTokens =
            (case Option.bind (Option.bind existing e_limit) el_output of
               Some existingOutput \<Rightarrow>
                 if existingOutput < proposedOutputTokens then existingOutput
                 else proposedOutputTokens
             | None \<Rightarrow> proposedOutputTokens);
          openWeights =
            (if truthyString (ms_modelSource spec)
             then str_includes (toLowerCase (coalesce (ms_modelSource spec) [])) ''huggingface''
             else ms_privacy spec = Some ''private'');
          built = venice_buildInputModalities caps;
          inputModalities =
            (if (case Option.bind (Option.bind existing e_modalities) emod_input of
                   Some mods \<Rightarrow> ''pdf'' \<in> set mods
                 | None \<Rightarrow> False) \<and> ''pdf'' \<notin> set built
             then built @ [''pdf''] else built);
          attachment =
            (supportsVision caps = Some True \<or> supportsAudioInput caps = Some True
             \<or> supportsVideoInput caps = Some True);
          inferred = venice_inferFamily (vn_id apiModel) (ms_name spec)
      in case timestampToDate P (vn_created apiModel) of
           None \<Rightarrow> None
         | Some releaseDate \<Rightarrow>
             Some \<lparr>m_name = ms_name spec,
                   m_family =
                     (case inferred of
                        Some family \<Rightarrow> Some family
                      | None \<Rightarrow> Option.bind existing e_family),
                   m_attachment = attachment,
                   m_reasoning = (supportsReasoning caps = Some True),
                   m_tool_call = (supportsFunctionCalling caps = Some True),
                   m_structured_output =
                     (if supportsResponseSchema caps = Some True then Some True else None),
                   m_temperature = True,
                   m_knowledge =
                     (if truthyString (Option.bind existing e_knowledge)
                      then Option.bind existing e_knowledge else None),
                   m_release_date = releaseDate,
                   m_last_updated = today,
                   m_open_weights = openWeights,
                   m_interleaved = Option.bind existing e_interleaved,
                   m_status = Option.bind existing e_status,
                   m_cost =
                     (case ms_pricing spec of
                        None \<Rightarrow> None
                      | Some pricing \<Rightarrow>
                          Some \<lparr>mc_input = usd (p_input pricing),
                                mc_output = usd (p_output pricing),
                                mc_cache_read = map_option usd (p_cache_input pricing),
                                mc_cache_write = map_option usd (p_cache_write pricing),
                                mc_context_over_200k =
                                  (case p_extended pricing of
                                     None \<Rightarrow> None
                                   | Some extended \<Rightarrow>
                                       Some \<lparr>mct_input = usd (xp_input extended),
                                             mct_output = usd (xp_output extended),
                                             mct_cache_read =
                                               map_option usd (xp_cache_input extended),
                                             mct_cache_write =
                                               map_option usd (xp_cache_write extended)\<rparr>)\<rparr>),
                   m_limit = \<lparr>ml_context = contextTokens, ml_output = outputTokens\<rparr>,
                   m_modalities = \<lparr>mmod_input = inputModalities, mmod_output = [''text'']\<rparr>\<rparr>)"

text \<open>
  The Venice change detector compares every field, the cost fields too, by what
  \<^verbatim>\<open>JSON.stringify\<close> prints for the two values.
\<close>

definition venice_compare :: "string \<Rightarrow> jsvalue \<Rightarrow> jsvalue \<Rightarrow> Changes list" where
  "venice_compare fld oldVal newVal =
     (if oldVal \<noteq> newVal then [\<lparr>field = fld, oldValue = oldVal, newValue = newVal\<rparr>] else [])"

definition venice_detectChanges :: "ExistingModel option \<Rightarrow> MergedModel \<Rightarrow> Changes list" where
  "venice_detectChanges existing merged =
     (case existing of
        None \<Rightarrow> []
      | Some e \<Rightarrow>
          (let ecost = e_cost e; mcost = m_cost merged;
               eover = Option.bind ecost ec_context_over_200k;
               mover = Option.bind mcost mc_context_over_200k
           in venice_compare ''name'' (ofString (e_name e)) (JString (m_name merged))
            @ venice_compare ''family'' (ofString (e_family e)) (ofString (m_family merged))
            @ venice_compare ''attachment'' (ofBoolean (e_attachment e))
                (JBoolean (m_attachment merged))
            @ venice_compare ''reasoning'' (ofBoolean (e_reasoning e))
                (JBoolean (m_reasoning merged))
            @ venice_compare ''tool_call'' (ofBoolean (e_tool_call e))
                (JBoolean (m_tool_call merged))
            @ venice_compare ''structured_output'' (ofBoolean (e_structured_output e))
                (ofBoolean (m_structured_output merged))
            @ venice_compare ''open_weights'' (ofBoolean (e_open_weights e))
                (JBoolean (m_open_weights merged))
            @ venice_compare ''release_date'' (ofString (e_release_date e))
                (JString (m_release_date merged))
            @ venice_compare ''cost.input'' (ofNumber (Option.bind ecost ec_input))
                (ofNumber (map_option mc_input mcost))
            @ venice_compare ''cost.output'' (ofNumber (Option.bind ecost ec_output))
                (ofNumber (map_option mc_output mcost))
            @ venice_compare ''cost.cache_read'' (ofNumber (Option.bind ecost ec_cache_read))
                (ofNumber (Option.bind mcost mc_cache_read))
            @ venice_compare ''cost.cache_write'' (ofNumber (Option.bind ecost ec_cache_write))
                (ofNumber (Option.bind mcost mc_cache_write))
            @ venice_compare ''cost.context_over_200k.input''
                (ofNumber (Option.bind eover ect_input)) (ofNumber (map_option mct_input mover))
            @ venice_compare ''cost.context_over_200k.output''
                (ofNumber (Option.bind eover ect_output)) (ofNumber (map_option mct_output mover))
            @ venice_compare ''cost.context_over_200k.cache_read''
                (ofNumber (Option.bind eover ect_cache_read))
                (ofNumber (Option.bind mover mct_cache_read))
            @ venice_compare ''cost.context_over_200k.cache_write''
                (ofNumber (Option.bind eover ect_cache_write))
                (ofNumber (Option.bind mover mct_cache_write))
            @ venice_compare ''limit.context''
                (ofNumber (Option.bind (e_limit e) el_context))
                (JNumber (ml_context (m_limit merged)))
            @ venice_compare ''limit.output''
                (ofNumber (Option.bind (e_limit e) el_output))
                (JNumber (ml_output (m_limit merged)))
            @ venice_compare ''modalities.input''
                (ofArray (Option.bind (e_modalities e) emod_input))
                (JArray (mmod_input (m_modalities merged)))))"





section \<open>The Vercel generator\<close>

text \<open>The script that writes \<^verbatim>\<open>providers/vercel/models\<close>: the validated source record.\<close>

datatype ModelType = Language | Embedding | Image | Video

record VercelPricingTier =
  t_cost :: string
  t_min :: number
  t_max :: "number option"

record VercelPricing =
  vp_input :: "string option"
  vp_output :: "string option"
  vp_input_cache_read :: "string option"
  vp_input_cache_write :: "string option"
  vp_input_tiers :: "VercelPricingTier list option"
  vp_output_tiers :: "VercelPricingTier list option"
  vp_input_cache_read_tiers :: "VercelPricingTier list option"
  vp_input_cache_write_tiers :: "VercelPricingTier list option"

record VercelModel =
  vc_id :: string
  vc_name :: string
  vc_created :: number
  vc_released :: "number option"
  vc_context_window :: number
  vc_max_tokens :: number
  vc_type :: ModelType
  vc_tags :: "string list"
  vc_pricing :: "VercelPricing option"

text \<open>
  Vercel infers the family in four passes over the sorted table: substring of the
  id, substring of the name, subsequence of the id, subsequence of the name.
\<close>

definition vercel_inferFamily :: "string \<Rightarrow> string \<Rightarrow> string option" where
  "vercel_inferFamily modelId modelName =
     (case find (\<lambda>family. isSubstring modelId family) sortedFamilies of
        Some family \<Rightarrow> Some family
      | None \<Rightarrow>
     (case find (\<lambda>family. isSubstring modelName family) sortedFamilies of
        Some family \<Rightarrow> Some family
      | None \<Rightarrow>
     (case find (\<lambda>family. matchesFamily modelId family) sortedFamilies of
        Some family \<Rightarrow> Some family
      | None \<Rightarrow> find (\<lambda>family. matchesFamily modelName family) sortedFamilies)))"

definition vercel_buildInputModalities :: "string list \<Rightarrow> string list" where
  "vercel_buildInputModalities tags =
     [''text'']
     @ (if ''vision'' \<in> set tags then [''image''] else [])
     @ (if ''file-input'' \<in> set tags then [''pdf''] else [])"

definition vercel_buildOutputModalities :: "ModelType \<Rightarrow> string list \<Rightarrow> string list" where
  "vercel_buildOutputModalities modelType tags =
     [''text'']
     @ (if modelType = Image \<or> ''image-generation'' \<in> set tags then [''image'']
        else if modelType = Video then [''video'']
        else [])"

text \<open>
  \<^verbatim>\<open>tiers?.[0]?.cost ?? plain\<close>: the cost of the first tier when there is one, else
  the plain price.
\<close>

definition tierPrice :: "VercelPricingTier list option \<Rightarrow> string option \<Rightarrow> string option" where
  "tierPrice tiers plain =
     (case tiers of
        Some (tier # rest) \<Rightarrow> Some (t_cost tier)
      | _ \<Rightarrow> plain)"

definition perMillion :: "platform \<Rightarrow> string option \<Rightarrow> number" where
  "perMillion P price = parseFloat P (coalesce price []) * 1000000"

definition vercel_cost :: "platform \<Rightarrow> VercelPricing option \<Rightarrow> MergedCost option" where
  "vercel_cost P pricing =
     (case pricing of
        None \<Rightarrow> None
      | Some pr \<Rightarrow>
          (let inputPrice = tierPrice (vp_input_tiers pr) (vp_input pr);
               outputPrice = tierPrice (vp_output_tiers pr) (vp_output pr);
               cacheReadPrice = tierPrice (vp_input_cache_read_tiers pr) (vp_input_cache_read pr);
               cacheWritePrice =
                 tierPrice (vp_input_cache_write_tiers pr) (vp_input_cache_write pr)
           in if truthyString inputPrice \<and> truthyString outputPrice then
                Some \<lparr>mc_input = perMillion P inputPrice,
                      mc_output = perMillion P outputPrice,
                      mc_cache_read =
                        (if truthyString cacheReadPrice then Some (perMillion P cacheReadPrice)
                         else None),
                      mc_cache_write =
                        (if truthyString cacheWritePrice then Some (perMillion P cacheWritePrice)
                         else None),
                      mc_context_over_200k = None\<rparr>
              else None))"

text \<open>
  The release date of \<^verbatim>\<open>mergeModel\<close>: the source's release time when it is present
  and not 0, else the existing date, else today. It is \<open>None\<close> when
  \<^verbatim>\<open>timestampToDate(apiModel.released)\<close> throws, and then so is \<open>vercel_mergeModel\<close>;
  nothing else in the function can fail.
\<close>

definition vercel_releaseDate ::
  "platform \<Rightarrow> string \<Rightarrow> VercelModel \<Rightarrow> ExistingModel option \<Rightarrow> string option" where
  "vercel_releaseDate P today apiModel existing =
     (if truthyNumber (vc_released apiModel)
      then timestampToDate P (coalesce (vc_released apiModel) 0)
      else Some (coalesce (Option.bind existing e_release_date) today))"

definition vercel_mergeModel ::
  "platform \<Rightarrow> string \<Rightarrow> VercelModel \<Rightarrow> ExistingModel option \<Rightarrow> MergedModel option" where
  "vercel_mergeModel P today apiModel existing =
     (let tags = vc_tags apiModel;
          inputModalities = vercel_buildInputModalities tags;
          outputModalities = vercel_buildOutputModalities (vc_type apiModel) tags;
          name = coalesce (Option.bind existing e_name) (vc_name apiModel);
          attachment = coalesce (Option.bind existing e_attachment)
                         (''vision'' \<in> set tags \<or> ''file-input'' \<in> set tags);
          reasoning = coalesce (Option.bind existing e_reasoning) (''reasoning'' \<in> set tags);
          toolCall = coalesce (Option.bind existing e_tool_call) (''tool-use'' \<in> set tags);
          openWeights = coalesce (Option.bind existing e_open_weights) False;
          family =
            (case Option.bind existing e_family of
               Some pinned \<Rightarrow> Some pinned
             | None \<Rightarrow> vercel_inferFamily (vc_id apiModel) (vc_name apiModel));
          structuredOutput = Option.bind existing e_structured_output;
          knowledge = Option.bind existing e_knowledge;
          interleaved = Option.bind existing e_interleaved;
          status = Option.bind existing e_status;
          releaseDate = vercel_releaseDate P today apiModel existing;
          contextLimit =
            (if vc_context_window apiModel > 0 then vc_context_window apiModel
             else coalesce (Option.bind (Option.bind existing e_limit) el_context) 0);
          outputLimit =
            (if vc_max_tokens apiModel > 0 then vc_max_tokens apiModel
             else coalesce (Option.bind (Option.bind existing e_limit) el_output) 0)
      in case releaseDate of
           None \<Rightarrow> None
         | Some release \<Rightarrow>
             Some \<lparr>m_name = name,
                   m_family = family,
                   m_attachment = attachment,
                   m_reasoning = reasoning,
                   m_tool_call = toolCall,
                   m_structured_output = structuredOutput,
                   m_temperature = True,
                   m_knowledge = (if truthyString knowledge then knowledge else None),
                   m_release_date = release,
                   m_last_updated = today,
                   m_open_weights = openWeights,
                   m_interleaved = interleaved,
                   m_status = (if truthyString status then status else None),
                   m_cost = vercel_cost P (vc_pricing apiModel),
                   m_limit = \<lparr>ml_context = contextLimit, ml_output = outputLimit\<rparr>,
                   m_modalities =
                     \<lparr>mmod_input = inputModalities, mmod_output = outputModalities\<rparr>\<rparr>)"

text \<open>
  The Vercel change detector. A cost value is a number or \<^verbatim>\<open>undefined\<close> by the
  interfaces, and \<open>isMaterialPriceDiff\<close> is applied to cost values only.
  \<^verbatim>\<open>EPSILON\<close> is the double that the literal \<^verbatim>\<open>0.001\<close> denotes, a little above
  1/1000. \<^verbatim>\<open>Math.abs(oldPrice - newPrice) > EPSILON\<close> is computed in doubles: the two
  prices are read as doubles, their difference is rounded, and taking the absolute
  value and comparing are exact.
\<close>

definition EPSILON :: number where
  "EPSILON = binary64 (1 / 1000)"

definition SkipZeroFields :: "string list" where
  "SkipZeroFields = [''limit.context'', ''limit.output'']"

definition shouldSkipZero :: "string \<Rightarrow> jsvalue \<Rightarrow> jsvalue \<Rightarrow> bool" where
  "shouldSkipZero fld oldVal newVal =
     (if fld \<notin> set SkipZeroFields then False
      else oldVal = JNumber 0 \<or> newVal = JNumber 0)"

definition isMaterialPriceDiff :: "jsvalue \<Rightarrow> jsvalue \<Rightarrow> bool" where
  "isMaterialPriceDiff oldPrice newPrice =
     (if oldPrice = JNumber 0 \<and> newPrice = JUndefined then False
      else if oldPrice \<noteq> JUndefined \<and> newPrice \<noteq> JUndefined then
        (case (oldPrice, newPrice) of
           (JNumber old, JNumber new) \<Rightarrow>
             \<bar>binary64 (binary64 old - binary64 new)\<bar> > EPSILON
         | _ \<Rightarrow> oldPrice \<noteq> newPrice)
      else oldPrice \<noteq> newPrice)"

definition vercel_compare :: "string \<Rightarrow> jsvalue \<Rightarrow> jsvalue \<Rightarrow> Changes list" where
  "vercel_compare fld oldVal newVal =
     (if shouldSkipZero fld oldVal newVal then []
      else
        (let isDiff = (if prefix ''cost.'' fld then isMaterialPriceDiff oldVal newVal
                       else oldVal \<noteq> newVal)
         in if isDiff then [\<lparr>field = fld, oldValue = oldVal, newValue = newVal\<rparr>] else []))"

definition vercel_detectChanges :: "ExistingModel option \<Rightarrow> MergedModel \<Rightarrow> Changes list" where
  "vercel_detectChanges existing merged =
     (case existing of
        None \<Rightarrow> []
      | Some e \<Rightarrow>
          (let ecost = e_cost e; mcost = m_cost merged
           in vercel_compare ''name'' (ofString (e_name e)) (JString (m_name merged))
            @ vercel_compare ''family'' (ofString (e_family e)) (ofString (m_family merged))
            @ vercel_compare ''attachment'' (ofBoolean (e_attachment e))
                (JBoolean (m_attachment merged))
            @ vercel_compare ''reasoning'' (ofBoolean (e_reasoning e))
                (JBoolean (m_reasoning merged))
            @ vercel_compare ''tool_call'' (ofBoolean (e_tool_call e))
                (JBoolean (m_tool_call merged))
            @ vercel_compare ''structured_output'' (ofBoolean (e_structured_output e))
                (ofBoolean (m_structured_output merged))
            @ vercel_compare ''open_weights'' (ofBoolean (e_open_weights e))
                (JBoolean (m_open_weights merged))
            @ vercel_compare ''release_date'' (ofString (e_release_date e))
                (JString (m_release_date merged))
            @ vercel_compare ''cost.input'' (ofNumber (Option.bind ecost ec_input))
                (ofNumber (map_option mc_input mcost))
            @ vercel_compare ''cost.output'' (ofNumber (Option.bind ecost ec_output))
                (ofNumber (map_option mc_output mcost))
            @ vercel_compare ''cost.cache_read'' (ofNumber (Option.bind ecost ec_cache_read))
                (ofNumber (Option.bind mcost mc_cache_read))
            @ vercel_compare ''cost.cache_write'' (ofNumber (Option.bind ecost ec_cache_write))
                (ofNumber (Option.bind mcost mc_cache_write))
            @ vercel_compare ''limit.context''
                (ofNumber (Option.bind (e_limit e) el_context))
                (JNumber (ml_context (m_limit merged)))
            @ vercel_compare ''limit.output''
                (ofNumber (Option.bind (e_limit e) el_output))
                (JNumber (ml_output (m_limit merged)))
            @ vercel_compare ''modalities.input''
                (ofArray (Option.bind (e_modalities e) emod_input))
                (JArray (mmod_input (m_modalities merged)))))"

text \<open>
  One iteration of the loop of \<^verbatim>\<open>main\<close>. An image or video model is passed over
  before anything is recorded; with \<^verbatim>\<open>--new-only\<close> an existing file is counted as
  unchanged after \<^verbatim>\<open>mergeModel\<close> has run.
\<close>

definition vercel_relativePath :: "VercelModel \<Rightarrow> string" where
  "vercel_relativePath apiModel = vc_id apiModel @ ''.toml''"

definition vercel_step ::
  "platform \<Rightarrow> string \<Rightarrow> bool \<Rightarrow> bool \<Rightarrow> VercelModel \<Rightarrow> RunState \<Rightarrow> RunState option" where
  "vercel_step P today dryRun newOnly apiModel st =
     (if vc_type apiModel = Image \<or> vc_type apiModel = Video then Some st
      else
        (let relativePath = vercel_relativePath apiModel;
             st1 = st\<lparr>rs_apiModelIds := insert relativePath (rs_apiModelIds st)\<rparr>;
             existing = loadExistingModel (rs_store st) relativePath
         in case vercel_mergeModel P today apiModel existing of
              None \<Rightarrow> None
            | Some merged \<Rightarrow>
                Some (case existing of
                   None \<Rightarrow>
                     st1\<lparr>rs_created := rs_created st + 1,
                         rs_store := (if dryRun then rs_store st
                                      else writeFile P relativePath merged (rs_store st)),
                         rs_classified := rs_classified st @ [(relativePath, Created)]\<rparr>
                 | Some e \<Rightarrow>
                     if newOnly then
                       st1\<lparr>rs_unchanged := rs_unchanged st + 1,
                           rs_classified := rs_classified st @ [(relativePath, Unchanged)]\<rparr>
                     else
                       (let changes = vercel_detectChanges existing merged in
                        if changes \<noteq> [] then
                          st1\<lparr>rs_updated := rs_updated st + 1,
                              rs_store := (if dryRun then rs_store st
                                           else writeFile P relativePath merged (rs_store st)),
                              rs_classified :=
                                rs_classified st @ [(relativePath, Updated changes)]\<rparr>
                        else
                          st1\<lparr>rs_unchanged := rs_unchanged st + 1,
                              rs_classified :=
                                rs_classified st @ [(relativePath, Unchanged)]\<rparr>))))"

fun vercel_loop ::
  "platform \<Rightarrow> string \<Rightarrow> bool \<Rightarrow> bool \<Rightarrow> VercelModel list \<Rightarrow> RunState \<Rightarrow> RunState option" where
  "vercel_loop P today dryRun newOnly [] st = Some st"
| "vercel_loop P today dryRun newOnly (apiModel # apiModels) st =
     (case vercel_step P today dryRun newOnly apiModel st of
        None \<Rightarrow> None
      | Some st' \<Rightarrow> vercel_loop P today dryRun newOnly apiModels st')"

definition vercel_main ::
  "platform \<Rightarrow> string \<Rightarrow> bool \<Rightarrow> bool \<Rightarrow> VercelModel list \<Rightarrow> store
     \<Rightarrow> (RunState \<times> Summary) option" where
  "vercel_main P today dryRun newOnly apiModels files =
     (let existingFiles = remdups (map fst files) in
      case vercel_loop P today dryRun newOnly apiModels (initialState files) of
        None \<Rightarrow> None
      | Some st \<Rightarrow> Some (st, summarize existingFiles st))"

section \<open>A concrete platform\<close>

text \<open>
  An instance of the platform for evaluating the model on concrete inputs.
  \<open>isoString\<close> follows the definition of \<^verbatim>\<open>Date.prototype.toISOString\<close>: the time
  value is truncated to whole milliseconds, a time value beyond 8.64e15 ms is
  rejected, the civil date of the day number is computed in the proleptic
  Gregorian calendar, and a year outside 0 to 9999 is printed with a sign and six
  digits. \<open>parseDecimal\<close> agrees with \<^verbatim>\<open>parseFloat\<close> on an unsigned decimal
  literal (digits, optionally a point and more digits), which is all it is given
  here. \<open>reparseExact\<close> reads a written record back as it is, which is what the
  TOML round trip does for a record whose strings are plain and not empty.
\<close>

definition padded :: "nat \<Rightarrow> int \<Rightarrow> string" where
  "padded width n =
     map (\<lambda>i. ''0123456789'' ! nat ((n div 10 ^ i) mod 10)) (rev [0..<width])"

definition civilFromDays :: "int \<Rightarrow> int \<times> int \<times> int" where
  "civilFromDays days =
     (let z = days + 719468;
          era = z div 146097;
          doe = z mod 146097;
          yoe = (doe - doe div 1460 + doe div 36524 - doe div 146096) div 365;
          doy = doe - (365 * yoe + yoe div 4 - yoe div 100);
          mp = (5 * doy + 2) div 153;
          d = doy - (153 * mp + 2) div 5 + 1;
          m = (if mp < 10 then mp + 3 else mp - 9);
          y = yoe + era * 400 + (if m \<le> 2 then 1 else 0)
      in (y, m, d))"

definition isoString :: "number \<Rightarrow> string option" where
  "isoString ms =
     (if \<bar>ms\<bar> > 8640000000000000 then None
      else
        (let t = (if ms \<ge> 0 then \<lfloor>ms\<rfloor> else \<lceil>ms\<rceil>);
             (y, m, d) = civilFromDays (t div 86400000);
             r = t mod 86400000;
             year = (if 0 \<le> y \<and> y \<le> 9999 then padded 4 y
                     else (if y < 0 then ''-'' else ''+'') @ padded 6 \<bar>y\<bar>)
         in Some (year @ ''-'' @ padded 2 m @ ''-'' @ padded 2 d @ ''T''
                  @ padded 2 (r div 3600000) @ '':'' @ padded 2 ((r div 60000) mod 60)
                  @ '':'' @ padded 2 ((r div 1000) mod 60) @ ''.'' @ padded 3 (r mod 1000)
                  @ ''Z'')))"

definition digitValue :: "char \<Rightarrow> nat" where
  "digitValue c = length (takeWhile (\<lambda>d. d \<noteq> c) ''0123456789'')"

definition decimalValue :: "string \<Rightarrow> nat" where
  "decimalValue ds = foldl (\<lambda>acc c. 10 * acc + digitValue c) 0 ds"

definition parseDecimal :: "string \<Rightarrow> number" where
  "parseDecimal s =
     (let isDigit = (\<lambda>c. c \<in> set ''0123456789'');
          whole = takeWhile isDigit s;
          rest = dropWhile isDigit s;
          frac = (case rest of
                    c # digits \<Rightarrow> if c = CHR ''.'' then takeWhile isDigit digits else []
                  | [] \<Rightarrow> [])
      in of_nat (decimalValue whole) + of_nat (decimalValue frac) / 10 ^ length frac)"

definition reparseExact :: "MergedModel \<Rightarrow> toml_file" where
  "reparseExact merged = Parsed (asExisting merged)"

definition bun :: platform where
  "bun = \<lparr>toISOString = isoString, parseFloat = parseDecimal, reparse = reparseExact\<rparr>"

section \<open>Sample records\<close>

text \<open>
  A Venice and a Vercel source record of the shape the two catalogs deliver, and
  the record of an empty TOML file, for evaluating the model.
\<close>

definition noCapabilities :: Capabilities where
  "noCapabilities =
     \<lparr>optimizedForCode = None, quantization = None, supportsAudioInput = None,
      supportsFunctionCalling = None, supportsLogProbs = None, supportsReasoning = None,
      supportsResponseSchema = None, supportsVideoInput = None, supportsVision = None,
      supportsWebSearch = None\<rparr>"

definition veniceSample :: VeniceModel where
  "veniceSample =
     \<lparr>vn_created = 1700000000,
      vn_id = ''mistral-31-24b'',
      vn_model_spec =
        \<lparr>ms_pricing =
           Some \<lparr>p_input = \<lparr>usd = 1 / 2, diem = None\<rparr>,
                 p_output = \<lparr>usd = 2, diem = None\<rparr>,
                 p_cache_input = None, p_cache_write = None, p_extended = None\<rparr>,
         ms_availableContextTokens = 32000,
         ms_capabilities =
           noCapabilities\<lparr>supportsFunctionCalling := Some True, supportsVision := Some True\<rparr>,
         ms_name = ''Venice Medium'',
         ms_modelSource = Some ''https://huggingface.co/mistralai/Mistral-Small-3.1-24B'',
         ms_offline = None,
         ms_privacy = Some ''private'',
         ms_traits = None\<rparr>,
      vn_object = ''model'',
      vn_owned_by = ''venice.ai'',
      vn_type = ''text''\<rparr>"

definition vercelSample :: VercelModel where
  "vercelSample =
     \<lparr>vc_id = ''openai/gpt-4o'',
      vc_name = ''GPT-4o'',
      vc_created = 1715558400,
      vc_released = Some 1715558400,
      vc_context_window = 128000,
      vc_max_tokens = 8000,
      vc_type = Language,
      vc_tags = [''vision'', ''tool-use''],
      vc_pricing =
        Some \<lparr>vp_input = Some ''0.0000025'', vp_output = Some ''0.00001'',
              vp_input_cache_read = None, vp_input_cache_write = None,
              vp_input_tiers = None, vp_output_tiers = None,
              vp_input_cache_read_tiers = None, vp_input_cache_write_tiers = None\<rparr>\<rparr>"

definition noExisting :: ExistingModel where
  "noExisting =
     \<lparr>e_name = None, e_family = None, e_attachment = None, e_reasoning = None,
      e_tool_call = None, e_structured_output = None, e_temperature = None,
      e_knowledge = None, e_release_date = None, e_last_updated = None,
      e_open_weights = None, e_interleaved = None, e_status = None, e_cost = None,
      e_limit = None, e_modalities = None, e_provider = None\<rparr>"

definition outputLimitOnly :: "number \<Rightarrow> ExistingLimit" where
  "outputLimitOnly n = \<lparr>el_context = None, el_input = None, el_output = Some n\<rparr>"

definition curatedExisting :: ExistingModel where
  "curatedExisting =
     noExisting\<lparr>e_knowledge := Some ''2024-10'',
                 e_interleaved := Some (Field ''reasoning_content''),
                 e_status := Some ''beta''\<rparr>"




definition vercelImage :: VercelModel where
  "vercelImage =
     vercelSample\<lparr>vc_id := ''openai/dall-e-3'', vc_name := ''DALL-E 3'', vc_type := Image,
                   vc_tags := [''image-generation''], vc_pricing := None\<rparr>"

section \<open>What the change detectors are said to compare\<close>








section \<open>Comparing two runs\<close>

text \<open>
  Two states of the loop have the same outcome when they agree on everything but
  the store: the processed ids, the three counters and the classifications.
\<close>

definition sameOutcome :: "RunState \<Rightarrow> RunState \<Rightarrow> bool" where
  "sameOutcome a b =
     (rs_apiModelIds a = rs_apiModelIds b \<and> rs_created a = rs_created b
      \<and> rs_updated a = rs_updated b \<and> rs_unchanged a = rs_unchanged b
      \<and> rs_classified a = rs_classified b)"

text \<open>The source records the Vercel loop does not pass over.\<close>

definition vercel_processed :: "VercelModel list \<Rightarrow> VercelModel list" where
  "vercel_processed apiModels =
     filter (\<lambda>apiModel. vc_type apiModel \<noteq> Image \<and> vc_type apiModel \<noteq> Video) apiModels"

chapter \<open>Properties\<close>

section \<open>Rounding to a double\<close>

text \<open>
  Rounding is monotone on the numbers that are not negative, and the tolerance is
  a double; so a rounded difference exceeds the tolerance only if the exact
  difference does. Rounding leaves a double as it is.
\<close>

lemma roundHalfEven_of_int: "roundHalfEven (of_int n) = n"
  by (simp add: roundHalfEven_def)

lemma roundHalfEven_mono:
  assumes "q \<le> q'" shows "roundHalfEven q \<le> roundHalfEven q'"
proof -
  have f: "\<lfloor>q\<rfloor> \<le> \<lfloor>q'\<rfloor>" using assms by (rule floor_mono)
  show ?thesis
  proof (cases "\<lfloor>q\<rfloor> = \<lfloor>q'\<rfloor>")
    case True
    with assms show ?thesis by (auto simp: roundHalfEven_def Let_def)
  next
    case False
    with f have "\<lfloor>q\<rfloor> + 1 \<le> \<lfloor>q'\<rfloor>" by simp
    moreover have "roundHalfEven q \<le> \<lfloor>q\<rfloor> + 1" by (simp add: roundHalfEven_def Let_def)
    moreover have "\<lfloor>q'\<rfloor> \<le> roundHalfEven q'" by (simp add: roundHalfEven_def Let_def)
    ultimately show ?thesis by linarith
  qed
qed

lemma pow2_diff: "(2::rat) powi (a - b) = 2 powi a / 2 powi b"
  by (rule power_int_diff) simp

lemma pow2_add: "(2::rat) powi (a + b) = 2 powi a * 2 powi b"
  by (rule power_int_add) simp

lemma pow2_mono: "a \<le> b \<Longrightarrow> (2::rat) powi a \<le> 2 powi b"
  by (rule power_int_increasing) simp_all

lemma exponent_bounds:
  assumes "0 < x"
  shows "2 powi exponent x \<le> x" and "x < 2 powi (exponent x + 1)"
proof -
  obtain p q where pq: "quotient_of x = (p, q)" by (cases "quotient_of x")
  then have q: "0 < q" and x: "x = of_int p / of_int q"
    by (simp_all add: quotient_of_denom_pos quotient_of_div)
  with assms have p: "0 < p" by (simp add: zero_less_divide_iff)
  define k where "k = bitlen p - bitlen q"
  have bp: "1 \<le> bitlen p" and bq: "1 \<le> bitlen q"
    using p q bitlen_ge_iff_power [of 1 p] bitlen_ge_iff_power [of 1 q] by simp_all
  have pl: "(2::rat) powi (bitlen p - 1) \<le> of_int p" and pu: "of_int p < (2::rat) powi bitlen p"
   and ql: "(2::rat) powi (bitlen q - 1) \<le> of_int q" and qu: "of_int q < (2::rat) powi bitlen q"
  proof -
    have *: "(2::rat) powi (bitlen n - 1) \<le> of_int n \<and> of_int n < (2::rat) powi bitlen n"
      if "0 < n" for n
    proof -
      from that have b: "1 \<le> bitlen n" using bitlen_ge_iff_power [of 1 n] by simp
      have "(2::int) ^ nat (bitlen n - 1) \<le> n" "n < 2 ^ nat (bitlen n)"
        using bitlen_bounds [OF that] by simp_all
      then have "(of_int ((2::int) ^ nat (bitlen n - 1)) :: rat) \<le> of_int n"
        "(of_int n :: rat) < of_int (2 ^ nat (bitlen n))"
        by (simp_all only: of_int_le_iff of_int_less_iff)
      then show ?thesis using b by (simp add: power_int_def)
    qed
    show "(2::rat) powi (bitlen p - 1) \<le> of_int p" "of_int p < (2::rat) powi bitlen p"
      "(2::rat) powi (bitlen q - 1) \<le> of_int q" "of_int q < (2::rat) powi bitlen q"
      using * [OF p] * [OF q] by simp_all
  qed
  have lo: "2 powi (k - 1) < x"
  proof -
    have "k - 1 = (bitlen p - 1) - bitlen q" by (simp add: k_def)
    then have "(2::rat) powi (k - 1) = 2 powi (bitlen p - 1) / 2 powi bitlen q"
      by (simp only: pow2_diff)
    also have "\<dots> < of_int p / of_int q"
      by (rule frac_less2) (use pl qu q in simp_all)
    finally show ?thesis by (simp add: x)
  qed
  have hi: "x < 2 powi (k + 1)"
  proof -
    have "k + 1 = bitlen p - (bitlen q - 1)" by (simp add: k_def)
    then have "(2::rat) powi (k + 1) = 2 powi bitlen p / 2 powi (bitlen q - 1)"
      by (simp only: pow2_diff)
    moreover have "of_int p / of_int q < (2::rat) powi bitlen p / 2 powi (bitlen q - 1)"
      by (rule frac_less) (use pu ql p in simp_all)
    ultimately show ?thesis by (simp add: x)
  qed
  have e: "exponent x = (if 2 powi k \<le> x then k else k - 1)"
    by (simp add: exponent_def pq k_def Let_def)
  show "2 powi exponent x \<le> x" using lo by (simp add: e)
  show "x < 2 powi (exponent x + 1)" using hi by (simp add: e)
qed



lemma roundHalfEven_nonneg: "0 \<le> q \<Longrightarrow> 0 \<le> roundHalfEven q"
  using roundHalfEven_mono [of 0 q] roundHalfEven_of_int [of 0] by simp

lemma binary64_pos:
  "0 < x \<Longrightarrow>
   binary64 x = 2 powi (max (exponent x) (- 1022) - 52)
                * of_int (roundHalfEven (x / 2 powi (max (exponent x) (- 1022) - 52)))"
  by (simp add: binary64_def Let_def)



lemma binary64_upper:
  assumes "0 < x"
  shows "binary64 x \<le> 2 powi (max (exponent x) (- 1022) + 1)"
proof -
  define E where "E = max (exponent x) (- 1022)"
  define ulp :: rat where "ulp = 2 powi (E - 52)"
  have ulp: "0 < ulp" by (simp add: ulp_def)
  have top: "ulp * of_int (2 ^ 53) = 2 powi (E + 1)"
    unfolding ulp_def using pow2_add [of "E - 52" 53] by (simp add: add.commute)
  have "x < 2 powi (exponent x + 1)" using assms by (rule exponent_bounds)
  also have "\<dots> \<le> 2 powi (E + 1)" by (rule pow2_mono) (simp add: E_def)
  finally have "x < ulp * of_int (2 ^ 53)" by (simp only: top)
  then have "x / ulp \<le> of_int (2 ^ 53)"
    using ulp by (simp add: field_simps)
  then have "roundHalfEven (x / ulp) \<le> 2 ^ 53"
    using roundHalfEven_mono [of "x / ulp" "of_int (2 ^ 53)"]
    by (simp only: roundHalfEven_of_int)
  then have "(of_int (roundHalfEven (x / ulp)) :: rat) \<le> of_int (2 ^ 53)"
    by (simp only: of_int_le_iff)
  then have "ulp * of_int (roundHalfEven (x / ulp)) \<le> ulp * of_int (2 ^ 53)"
    using ulp by (simp only: mult_le_cancel_left_pos)
  then have "ulp * of_int (roundHalfEven (x / ulp)) \<le> 2 powi (E + 1)"
    by (simp only: top)
  then show ?thesis
    unfolding binary64_pos [OF assms] ulp_def E_def .
qed

lemma binary64_lower:
  assumes "0 < x" and "- 1022 \<le> exponent x"
  shows "2 powi exponent x \<le> binary64 x"
proof -
  define ulp :: rat where "ulp = 2 powi (exponent x - 52)"
  have ulp: "0 < ulp" by (simp add: ulp_def)
  have bot: "ulp * of_int (2 ^ 52) = 2 powi exponent x"
    unfolding ulp_def using pow2_add [of "exponent x - 52" 52] by simp
  have E: "max (exponent x) (- 1022) = exponent x" using assms(2) by simp
  have "2 powi exponent x \<le> x" using assms(1) by (rule exponent_bounds)
  then have "ulp * of_int (2 ^ 52) \<le> x" by (simp only: bot)
  then have "of_int (2 ^ 52) \<le> x / ulp"
    using ulp by (simp add: field_simps)
  then have "2 ^ 52 \<le> roundHalfEven (x / ulp)"
    using roundHalfEven_mono [of "of_int (2 ^ 52)" "x / ulp"]
    by (simp only: roundHalfEven_of_int)
  then have "(of_int (2 ^ 52) :: rat) \<le> of_int (roundHalfEven (x / ulp))"
    by (simp only: of_int_le_iff)
  then have "ulp * of_int (2 ^ 52) \<le> ulp * of_int (roundHalfEven (x / ulp))"
    using ulp by (simp only: mult_le_cancel_left_pos)
  then have "2 powi exponent x \<le> ulp * of_int (roundHalfEven (x / ulp))"
    by (simp only: bot)
  then show ?thesis
    unfolding binary64_pos [OF assms(1)] E ulp_def .
qed



lemma EPSILON_eq: "EPSILON = 1152921504606847 / 1152921504606846976"
  unfolding EPSILON_def by code_simp

lemma EPSILON_pos: "0 < EPSILON"
  by (simp add: EPSILON_eq)

lemma binary64_zero: "binary64 0 = 0"
  by (simp add: binary64_def)



lemma exponent_unique:
  assumes "0 < y" and "2 powi e \<le> y" and "y < 2 powi (e + 1)"
  shows "exponent y = e"
proof (rule antisym)
  show "exponent y \<le> e"
  proof (rule ccontr)
    assume "\<not> exponent y \<le> e"
    then have "e + 1 \<le> exponent y" by simp
    then have "(2::rat) powi (e + 1) \<le> 2 powi exponent y" by (rule pow2_mono)
    also have "\<dots> \<le> y" using assms(1) by (rule exponent_bounds)
    finally show False using assms(3) by simp
  qed
  show "e \<le> exponent y"
  proof (rule ccontr)
    assume "\<not> e \<le> exponent y"
    then have "exponent y + 1 \<le> e" by simp
    then have "(2::rat) powi (exponent y + 1) \<le> 2 powi e" by (rule pow2_mono)
    also have "\<dots> \<le> y" by fact
    finally show False using exponent_bounds(2) [OF assms(1)] by simp
  qed
qed

lemma binary64_multiple:
  assumes "0 < y" and "y = 2 powi (max (exponent y) (- 1022) - 52) * of_int k"
  shows "binary64 y = y"
proof -
  define u :: rat where "u = 2 powi (max (exponent y) (- 1022) - 52)"
  have u: "0 < u" by (simp add: u_def)
  have "y / u = of_int k" using assms(2) u by (simp add: u_def [symmetric])
  then have "roundHalfEven (y / u) = k" by (simp only: roundHalfEven_of_int)
  then have "binary64 y = u * of_int k"
    unfolding binary64_pos [OF assms(1)] u_def [symmetric] by simp
  with assms(2) show ?thesis by (simp add: u_def)
qed

lemma binary64_idem_pos:
  assumes "0 < x"
  shows "binary64 (binary64 x) = binary64 x"
proof -
  define E where "E = max (exponent x) (- 1022)"
  define u :: rat where "u = 2 powi (E - 52)"
  define n where "n = roundHalfEven (x / u)"
  define y where "y = binary64 x"
  have u: "0 < u" by (simp add: u_def)
  have y: "y = u * of_int n"
    unfolding y_def binary64_pos [OF assms] n_def u_def E_def ..
  have top: "u * of_int (2 ^ 53) = 2 powi (E + 1)"
    unfolding u_def using pow2_add [of "E - 52" 53] by (simp add: add.commute)
  have mid: "u * of_int (2 ^ 52) = 2 powi E"
    unfolding u_def using pow2_add [of "E - 52" 52] by simp
  have n0: "0 \<le> n" unfolding n_def using assms u by (intro roundHalfEven_nonneg) simp
  have "y \<le> 2 powi (E + 1)" unfolding y_def E_def using assms by (rule binary64_upper)
  then have "u * of_int n \<le> u * of_int (2 ^ 53)" by (simp only: y top)
  then have n53: "n \<le> 2 ^ 53" using u by (simp only: mult_le_cancel_left_pos of_int_le_iff)
  show ?thesis
  proof (cases "n = 0")
    case True
    then show ?thesis using y by (simp add: y_def binary64_def)
  next
    case False
    with n0 have npos: "0 < n" by simp
    then have ypos: "0 < y" using u y by simp
    have "exponent y = E \<and> n < 2 ^ 53 \<or> exponent y = E + 1 \<and> n = 2 ^ 53
          \<or> exponent y < E \<and> E = - 1022"
    proof (cases "n = 2 ^ 53")
      case True
      then have "y = 2 powi (E + 1)" using y top by simp
      then have "exponent y = E + 1"
        using ypos pow2_add [of "E + 1" 1] by (intro exponent_unique) simp_all
      with True show ?thesis by simp
    next
      case False
      with n53 have lt: "n < 2 ^ 53" by simp
      then have "u * of_int n < u * of_int (2 ^ 53)"
        using u by (simp only: mult_less_cancel_left_pos of_int_less_iff)
      then have hi: "y < 2 powi (E + 1)" by (simp only: y top)
      show ?thesis
      proof (cases "2 ^ 52 \<le> n")
        case True
        then have "u * of_int (2 ^ 52) \<le> u * of_int n"
          using u by (simp only: mult_le_cancel_left_pos of_int_le_iff)
        then have "2 powi E \<le> y" by (simp only: y mid)
        then have "exponent y = E" using ypos hi by (intro exponent_unique)
        with lt show ?thesis by simp
      next
        case False
        then have "u * of_int n < u * of_int (2 ^ 52)"
          using u by (simp only: mult_less_cancel_left_pos of_int_less_iff)
        then have lo: "y < 2 powi E" by (simp only: y mid)
        have "exponent y < E"
        proof (rule ccontr)
          assume "\<not> exponent y < E"
          then have "(2::rat) powi E \<le> 2 powi exponent y" by (intro pow2_mono) simp
          also have "\<dots> \<le> y" using ypos by (rule exponent_bounds)
          finally show False using lo by simp
        qed
        moreover have "E = - 1022"
        proof (rule ccontr)
          assume "E \<noteq> - 1022"
          then have E: "E = exponent x" "- 1022 \<le> exponent x"
            by (simp_all add: E_def max_def split: if_splits)
          have "2 powi exponent x \<le> binary64 x" using assms E(2) by (rule binary64_lower)
          with lo show False by (simp add: y_def E(1))
        qed
        ultimately show ?thesis by simp
      qed
    qed
    then consider (same) "max (exponent y) (- 1022) = E"
      | (up) "max (exponent y) (- 1022) = E + 1" "n = 2 ^ 53"
      by (auto simp: E_def)
    then have "binary64 y = y"
    proof cases
      case same
      have "y = 2 powi (max (exponent y) (- 1022) - 52) * of_int n"
        unfolding same using y by (simp only: u_def)
      with ypos show ?thesis by (rule binary64_multiple)
    next
      case up
      have "2 powi (E + 1 - 52) * of_int (2 ^ 52) = (2::rat) powi (E + 1)"
        using pow2_add [of "E + 1 - 52" 52] by (simp add: add.commute)
      moreover have "y = 2 powi (E + 1)" using y top up(2) by simp
      ultimately have "y = 2 powi (max (exponent y) (- 1022) - 52) * of_int (2 ^ 52)"
        unfolding up(1) by (simp only:)
      with ypos show ?thesis by (rule binary64_multiple)
    qed
    then show ?thesis by (simp add: y_def)
  qed
qed

lemma binary64_minus: "binary64 (- x) = - binary64 x"
  by (simp add: binary64_def Let_def)

lemma binary64_idem: "binary64 (binary64 x) = binary64 x"
proof -
  consider "x = 0" | "0 < x" | "0 < - x" by linarith
  then show ?thesis
  proof cases
    case 1
    then show ?thesis by (simp add: binary64_def)
  next
    case 2
    then show ?thesis by (rule binary64_idem_pos)
  next
    case 3
    then have "binary64 (binary64 (- x)) = binary64 (- x)" by (rule binary64_idem_pos)
    then show ?thesis by (simp add: binary64_minus)
  qed
qed

section \<open>The inclusion filter\<close>

lemmas filter_config =
  SKIP_MODELS_def SKIP_NAMESPACES_def INCLUDE_ALL_PROVIDERS_def WELL_KNOWN_MODELS_def
  dotOrHyphen_def

lemmas filter_defs =
  should_include_model_def matchesSkipModel_def inSkippedNamespace_def matchesWellKnown_def
  providerOf_def

lemma grepE_end: "grepE ''$'' t = (t = [])"
  by simp

lemma grepE_bracket:
  "grepE (CHR ''['' # p) t =
     (\<exists>c t'. t = c # t' \<and> c \<in> set (takeWhile (\<lambda>x. x \<noteq> CHR '']'') p)
        \<and> grepE (drop 1 (dropWhile (\<lambda>x. x \<noteq> CHR '']'') p)) t')"
  by (cases t) simp_all

lemma grepE_literal:
  "a \<noteq> CHR ''['' \<Longrightarrow> a \<noteq> CHR ''$'' \<or> p \<noteq> [] \<Longrightarrow>
   grepE (a # p) t = (\<exists>t'. t = a # t' \<and> grepE p t')"
  by (cases t) auto

lemma lowerChar_fix: "c \<notin> set ''ABCDEFGHIJKLMNOPQRSTUVWXYZ'' \<Longrightarrow> lowerChar c = c"
  by (simp add: lowerChar_def)

lemma toLowerCase_fix:
  "set t \<inter> set ''ABCDEFGHIJKLMNOPQRSTUVWXYZ'' = {} \<Longrightarrow> toLowerCase t = t"
proof (induction t)
  case Nil
  show ?case by (simp add: toLowerCase_def)
next
  case (Cons c t)
  from Cons.prems have c: "c \<notin> set ''ABCDEFGHIJKLMNOPQRSTUVWXYZ''"
    and t: "set t \<inter> set ''ABCDEFGHIJKLMNOPQRSTUVWXYZ'' = {}"
    by auto
  from Cons.IH [OF t] lowerChar_fix [OF c] show ?case
    by (simp add: toLowerCase_def)
qed

lemma grepE_wellKnown_lower:
  "pattern \<in> set WELL_KNOWN_MODELS \<Longrightarrow> grepE pattern t \<Longrightarrow>
   set t \<inter> set ''ABCDEFGHIJKLMNOPQRSTUVWXYZ'' = {}"
  unfolding WELL_KNOWN_MODELS_def dotOrHyphen_def
  by (simp only: set_simps append.simps, elim insertE emptyE;
      auto simp del: grepE.simps simp add: grepE_end grepE_literal grepE_bracket)

lemma matchesWellKnown_lower: "matchesWellKnown t \<Longrightarrow> toLowerCase t = t"
  unfolding matchesWellKnown_def
  using grepE_wellKnown_lower toLowerCase_fix by blast

lemma workers_prefix_lower:
  assumes "prefix ''workers-ai/@cf/'' t"
  shows "prefix ''workers-ai/@cf/'' (toLowerCase t)"
proof -
  from assms obtain r where "t = ''workers-ai/@cf/'' @ r"
    by (auto simp: prefix_def)
  then have "toLowerCase t = ''workers-ai/@cf/'' @ toLowerCase r"
    by (simp add: toLowerCase_def lowerChar_def)
  then show ?thesis by simp
qed

lemma workers_prefix_included:
  assumes "prefix ''workers-ai/@cf/'' t" and "\<not> matchesSkipModel t"
  shows "should_include_model t"
proof -
  from assms(1) obtain r where t: "t = ''workers-ai/@cf/'' @ r"
    by (auto simp: prefix_def)
  have "providerOf t = ''workers-ai''" by (simp add: t providerOf_def)
  moreover have "\<not> inSkippedNamespace t"
    by (simp add: t inSkippedNamespace_def SKIP_NAMESPACES_def)
  ultimately show ?thesis
    using assms by (simp add: should_include_model_def INCLUDE_ALL_PROVIDERS_def)
qed

lemma included_cases:
  assumes "should_include_model t"
  shows "prefix ''workers-ai/@cf/'' t \<or> matchesWellKnown t"
  using assms
  by (auto simp: should_include_model_def Let_def INCLUDE_ALL_PROVIDERS_def split: if_splits)

text \<open>
  Claim C7. The filter excludes \<^verbatim>\<open>foo/whisper-large-v3\<close>, which contains the skip
  word \<^verbatim>\<open>whisper\<close>; for the include-all provider \<^verbatim>\<open>workers-ai\<close> it includes
  \<^verbatim>\<open>workers-ai/@cf/meta/llama\<close> and excludes \<^verbatim>\<open>workers-ai/embedding-model\<close>, which lacks
  the required namespace; and every id that matches a skip word or lies in a
  skipped namespace is excluded, whatever allow rule it also matches.
\<close>

theorem skip_rules_dominate:
  "str_includes ''foo/whisper-large-v3'' ''whisper''
   \<and> \<not> should_include_model ''foo/whisper-large-v3''
   \<and> should_include_model ''workers-ai/@cf/meta/llama''
   \<and> \<not> should_include_model ''workers-ai/embedding-model''
   \<and> (\<forall>model_id. matchesSkipModel model_id \<or> inSkippedNamespace model_id
         \<longrightarrow> \<not> should_include_model model_id)"
proof (intro conjI allI impI)
  show "str_includes ''foo/whisper-large-v3'' ''whisper''" by simp
  show "\<not> should_include_model ''foo/whisper-large-v3''"
    by (simp add: filter_defs filter_config)
  show "should_include_model ''workers-ai/@cf/meta/llama''"
    by (simp add: filter_defs filter_config)
  show "\<not> should_include_model ''workers-ai/embedding-model''"
    by (simp add: filter_defs filter_config)
next
  fix model_id
  assume "matchesSkipModel model_id \<or> inSkippedNamespace model_id"
  then show "\<not> should_include_model model_id"
    by (auto simp: should_include_model_def Let_def)
qed

text \<open>
  The id \<^verbatim>\<open>workers-ai/@cf/openai/whisper\<close> passes the include-all rule with its
  required namespace and contains a skip word: it is excluded.
\<close>

theorem skip_rules_dominate_witness:
  "matchesSkipModel ''workers-ai/@cf/openai/whisper''
   \<and> providerOf ''workers-ai/@cf/openai/whisper'' \<in> set INCLUDE_ALL_PROVIDERS
   \<and> prefix ''workers-ai/@cf/'' ''workers-ai/@cf/openai/whisper''
   \<and> \<not> should_include_model ''workers-ai/@cf/openai/whisper''"
proof -
  have skip: "matchesSkipModel ''workers-ai/@cf/openai/whisper''"
    by (simp add: matchesSkipModel_def SKIP_MODELS_def)
  have "\<not> should_include_model ''workers-ai/@cf/openai/whisper''"
    using skip_rules_dominate skip by blast
  with skip show ?thesis
    by (simp add: providerOf_def INCLUDE_ALL_PROVIDERS_def)
qed

text \<open>
  Claim C8 says that the classification of an id is that of the id in lower case.
  The comparisons of the shell function are case-sensitive: \<^verbatim>\<open>openai/GPT-4o\<close> is
  excluded and \<^verbatim>\<open>openai/gpt-4o\<close> is included.
\<close>

theorem lowercase_changes_classification:
  "should_include_model ''openai/GPT-4o'' \<noteq> should_include_model (toLowerCase ''openai/GPT-4o'')"
  by (simp add: filter_defs filter_config toLowerCase_def lowerChar_def)

text \<open>
  Claim C8, amended. An id that is included stays included when it is put in
  lower case, unless the lower-case id contains a skip word.
\<close>

theorem included_stays_included_in_lower_case:
  assumes "should_include_model model_id"
    and "\<not> matchesSkipModel (toLowerCase model_id)"
  shows "should_include_model (toLowerCase model_id)"
proof -
  from included_cases [OF assms(1)] show ?thesis
  proof
    assume "prefix ''workers-ai/@cf/'' model_id"
    then have "prefix ''workers-ai/@cf/'' (toLowerCase model_id)"
      by (rule workers_prefix_lower)
    then show ?thesis using assms(2) by (rule workers_prefix_included)
  next
    assume "matchesWellKnown model_id"
    then have "toLowerCase model_id = model_id" by (rule matchesWellKnown_lower)
    with assms(1) show ?thesis by simp
  qed
qed

text \<open>An included id with a capital letter, and its lower-case form.\<close>

theorem included_stays_included_in_lower_case_witness:
  "should_include_model ''workers-ai/@cf/meta/Llama-3''
   \<and> \<not> matchesSkipModel (toLowerCase ''workers-ai/@cf/meta/Llama-3'')
   \<and> toLowerCase ''workers-ai/@cf/meta/Llama-3'' = ''workers-ai/@cf/meta/llama-3''
   \<and> should_include_model ''workers-ai/@cf/meta/llama-3''"
proof -
  have a: "should_include_model ''workers-ai/@cf/meta/Llama-3''"
    by (simp add: filter_defs filter_config)
  have l: "toLowerCase ''workers-ai/@cf/meta/Llama-3'' = ''workers-ai/@cf/meta/llama-3''"
    by (simp add: toLowerCase_def lowerChar_def)
  have b: "\<not> matchesSkipModel (toLowerCase ''workers-ai/@cf/meta/Llama-3'')"
    unfolding l by (simp add: matchesSkipModel_def SKIP_MODELS_def)
  from included_stays_included_in_lower_case [OF a b] a b l show ?thesis by simp
qed

section \<open>The reconcilers\<close>

subsection \<open>Evaluation on the sample records\<close>

lemma coalesce_simps [simp]: "coalesce None d = d" "coalesce (Some x) d = x"
  by (simp_all add: coalesce_def)

lemma truthyString_simps [simp]:
  "truthyString None = False" "truthyString (Some s) = (s \<noteq> [])"
  by (simp_all add: truthyString_def)

lemma truthyNumber_simps [simp]:
  "truthyNumber None = False" "truthyNumber (Some n) = (n \<noteq> 0)"
  by (simp_all add: truthyNumber_def)

lemma bun_simps [simp]:
  "toISOString bun = isoString" "parseFloat bun = parseDecimal" "reparse bun = reparseExact"
  by (simp_all add: bun_def)

lemma sample_dates:
  "timestampToDate bun 1700000000 = Some ''2023-11-14''"
  "timestampToDate bun 1715558400 = Some ''2024-05-13''"
  by code_simp+

lemma venice_sample_merge:
  "venice_mergeModel bun today veniceSample existing =
     Some \<lparr>m_name = ''Venice Medium'',
           m_family = (case venice_inferFamily ''mistral-31-24b'' ''Venice Medium'' of
                         Some family \<Rightarrow> Some family
                       | None \<Rightarrow> Option.bind existing e_family),
           m_attachment = True, m_reasoning = False, m_tool_call = True,
           m_structured_output = None, m_temperature = True,
           m_knowledge = (if truthyString (Option.bind existing e_knowledge)
                          then Option.bind existing e_knowledge else None),
           m_release_date = ''2023-11-14'', m_last_updated = today,
           m_open_weights = True,
           m_interleaved = Option.bind existing e_interleaved,
           m_status = Option.bind existing e_status,
           m_cost = Some \<lparr>mc_input = 1 / 2, mc_output = 2, mc_cache_read = None,
                          mc_cache_write = None, mc_context_over_200k = None\<rparr>,
           m_limit = \<lparr>ml_context = 32000,
                       ml_output =
                         (case Option.bind (Option.bind existing e_limit) el_output of
                            Some existingOutput \<Rightarrow>
                              if existingOutput < 8000 then existingOutput else 8000
                          | None \<Rightarrow> 8000)\<rparr>,
           m_modalities =
             \<lparr>mmod_input =
                (if (case Option.bind (Option.bind existing e_modalities) emod_input of
                       Some mods \<Rightarrow> ''pdf'' \<in> set mods
                     | None \<Rightarrow> False)
                 then [''text'', ''image'', ''pdf''] else [''text'', ''image'']),
              mmod_output = [''text'']\<rparr>\<rparr>"
  by (simp add: venice_mergeModel_def veniceSample_def noCapabilities_def sample_dates
      venice_buildInputModalities_def toLowerCase_def
      lowerChar_def Let_def cong: option.case_cong if_cong)

lemma vercel_sample_merge:
  "vercel_mergeModel bun today vercelSample existing =
     Some \<lparr>m_name = coalesce (Option.bind existing e_name) ''GPT-4o'',
           m_family = (case Option.bind existing e_family of
                         Some pinned \<Rightarrow> Some pinned
                       | None \<Rightarrow> vercel_inferFamily ''openai/gpt-4o'' ''GPT-4o''),
           m_attachment = coalesce (Option.bind existing e_attachment) True,
           m_reasoning = coalesce (Option.bind existing e_reasoning) False,
           m_tool_call = coalesce (Option.bind existing e_tool_call) True,
           m_structured_output = Option.bind existing e_structured_output,
           m_temperature = True,
           m_knowledge = (if truthyString (Option.bind existing e_knowledge)
                          then Option.bind existing e_knowledge else None),
           m_release_date = ''2024-05-13'', m_last_updated = today,
           m_open_weights = coalesce (Option.bind existing e_open_weights) False,
           m_interleaved = Option.bind existing e_interleaved,
           m_status = (if truthyString (Option.bind existing e_status)
                       then Option.bind existing e_status else None),
           m_cost = Some \<lparr>mc_input = 5 / 2, mc_output = 10, mc_cache_read = None,
                          mc_cache_write = None, mc_context_over_200k = None\<rparr>,
           m_limit = \<lparr>ml_context = 128000, ml_output = 8000\<rparr>,
           m_modalities = \<lparr>mmod_input = [''text'', ''image''], mmod_output = [''text'']\<rparr>\<rparr>"
proof -
  have prices: "parseDecimal ''0.0000025'' = 1 / 400000" "parseDecimal ''0.00001'' = 1 / 100000"
    by code_simp+
  show ?thesis
    by (simp add: vercel_mergeModel_def vercel_releaseDate_def vercelSample_def sample_dates
        vercel_buildInputModalities_def vercel_buildOutputModalities_def vercel_cost_def
        tierPrice_def perMillion_def prices Let_def
        cong: option.case_cong if_cong)
qed

subsection \<open>The fields of a merged record\<close>

lemma venice_mergeModel_returns:
  "(\<exists>merged. venice_mergeModel P today apiModel existing = Some merged)
   \<longleftrightarrow> timestampToDate P (vn_created apiModel) \<noteq> None"
  by (cases "timestampToDate P (vn_created apiModel)")
     (simp_all add: venice_mergeModel_def Let_def)

lemma venice_mergeModel_fields:
  assumes "venice_mergeModel P today apiModel existing = Some merged"
  shows "m_name merged = ms_name (vn_model_spec apiModel)"
    and "m_family merged =
           (case venice_inferFamily (vn_id apiModel) (ms_name (vn_model_spec apiModel)) of
              Some family \<Rightarrow> Some family
            | None \<Rightarrow> Option.bind existing e_family)"
    and "m_attachment merged =
           (supportsVision (ms_capabilities (vn_model_spec apiModel)) = Some True
            \<or> supportsAudioInput (ms_capabilities (vn_model_spec apiModel)) = Some True
            \<or> supportsVideoInput (ms_capabilities (vn_model_spec apiModel)) = Some True)"
    and "m_reasoning merged =
           (supportsReasoning (ms_capabilities (vn_model_spec apiModel)) = Some True)"
    and "m_tool_call merged =
           (supportsFunctionCalling (ms_capabilities (vn_model_spec apiModel)) = Some True)"
    and "m_structured_output merged =
           (if supportsResponseSchema (ms_capabilities (vn_model_spec apiModel)) = Some True
            then Some True else None)"
    and "m_knowledge merged =
           (if Option.bind existing e_knowledge = Some [] then None
            else Option.bind existing e_knowledge)"
    and "Some (m_release_date merged) = timestampToDate P (vn_created apiModel)"
    and "m_last_updated merged = today"
    and "m_open_weights merged =
           (if truthyString (ms_modelSource (vn_model_spec apiModel))
            then str_includes
                   (toLowerCase (coalesce (ms_modelSource (vn_model_spec apiModel)) []))
                   ''huggingface''
            else ms_privacy (vn_model_spec apiModel) = Some ''private'')"
    and "m_interleaved merged = Option.bind existing e_interleaved"
    and "m_status merged = Option.bind existing e_status"
    and "ml_context (m_limit merged) = ms_availableContextTokens (vn_model_spec apiModel)"
    and "ml_output (m_limit merged) =
           (case Option.bind (Option.bind existing e_limit) el_output of
              Some existingOutput \<Rightarrow>
                if existingOutput
                   < of_int \<lfloor>ms_availableContextTokens (vn_model_spec apiModel) / 4\<rfloor>
                then existingOutput
                else of_int \<lfloor>ms_availableContextTokens (vn_model_spec apiModel) / 4\<rfloor>
            | None \<Rightarrow> of_int \<lfloor>ms_availableContextTokens (vn_model_spec apiModel) / 4\<rfloor>)"
    and "mmod_input (m_modalities merged) =
           (let built = venice_buildInputModalities (ms_capabilities (vn_model_spec apiModel))
            in if (case Option.bind (Option.bind existing e_modalities) emod_input of
                     Some mods \<Rightarrow> ''pdf'' \<in> set mods
                   | None \<Rightarrow> False) \<and> ''pdf'' \<notin> set built
               then built @ [''pdf''] else built)"
proof -
  from assms obtain releaseDate where
    date: "timestampToDate P (vn_created apiModel) = Some releaseDate"
    by (cases "timestampToDate P (vn_created apiModel)")
       (simp_all add: venice_mergeModel_def Let_def)
  with assms have m: "merged = the (venice_mergeModel P today apiModel existing)"
    by simp
  show "m_name merged = ms_name (vn_model_spec apiModel)"
    and "m_family merged =
           (case venice_inferFamily (vn_id apiModel) (ms_name (vn_model_spec apiModel)) of
              Some family \<Rightarrow> Some family
            | None \<Rightarrow> Option.bind existing e_family)"
    and "m_attachment merged =
           (supportsVision (ms_capabilities (vn_model_spec apiModel)) = Some True
            \<or> supportsAudioInput (ms_capabilities (vn_model_spec apiModel)) = Some True
            \<or> supportsVideoInput (ms_capabilities (vn_model_spec apiModel)) = Some True)"
    and "m_reasoning merged =
           (supportsReasoning (ms_capabilities (vn_model_spec apiModel)) = Some True)"
    and "m_tool_call merged =
           (supportsFunctionCalling (ms_capabilities (vn_model_spec apiModel)) = Some True)"
    and "m_structured_output merged =
           (if supportsResponseSchema (ms_capabilities (vn_model_spec apiModel)) = Some True
            then Some True else None)"
    and "m_knowledge merged =
           (if Option.bind existing e_knowledge = Some [] then None
            else Option.bind existing e_knowledge)"
    and "Some (m_release_date merged) = timestampToDate P (vn_created apiModel)"
    and "m_last_updated merged = today"
    and "m_open_weights merged =
           (if truthyString (ms_modelSource (vn_model_spec apiModel))
            then str_includes
                   (toLowerCase (coalesce (ms_modelSource (vn_model_spec apiModel)) []))
                   ''huggingface''
            else ms_privacy (vn_model_spec apiModel) = Some ''private'')"
    and "m_interleaved merged = Option.bind existing e_interleaved"
    and "m_status merged = Option.bind existing e_status"
    and "ml_context (m_limit merged) = ms_availableContextTokens (vn_model_spec apiModel)"
    and "ml_output (m_limit merged) =
           (case Option.bind (Option.bind existing e_limit) el_output of
              Some existingOutput \<Rightarrow>
                if existingOutput
                   < of_int \<lfloor>ms_availableContextTokens (vn_model_spec apiModel) / 4\<rfloor>
                then existingOutput
                else of_int \<lfloor>ms_availableContextTokens (vn_model_spec apiModel) / 4\<rfloor>
            | None \<Rightarrow> of_int \<lfloor>ms_availableContextTokens (vn_model_spec apiModel) / 4\<rfloor>)"
    and "mmod_input (m_modalities merged) =
           (let built = venice_buildInputModalities (ms_capabilities (vn_model_spec apiModel))
            in if (case Option.bind (Option.bind existing e_modalities) emod_input of
                     Some mods \<Rightarrow> ''pdf'' \<in> set mods
                   | None \<Rightarrow> False) \<and> ''pdf'' \<notin> set built
               then built @ [''pdf''] else built)"
    unfolding m using date
    by (simp_all add: venice_mergeModel_def Let_def truthyString_def split: option.split)
qed

lemma venice_mergeModel_cost:
  assumes "venice_mergeModel P today apiModel existing = Some merged"
  shows "m_cost merged =
     (case ms_pricing (vn_model_spec apiModel) of
        None \<Rightarrow> None
      | Some pricing \<Rightarrow>
          Some \<lparr>mc_input = usd (p_input pricing),
                mc_output = usd (p_output pricing),
                mc_cache_read = map_option usd (p_cache_input pricing),
                mc_cache_write = map_option usd (p_cache_write pricing),
                mc_context_over_200k =
                  (case p_extended pricing of
                     None \<Rightarrow> None
                   | Some extended \<Rightarrow>
                       Some \<lparr>mct_input = usd (xp_input extended),
                             mct_output = usd (xp_output extended),
                             mct_cache_read = map_option usd (xp_cache_input extended),
                             mct_cache_write = map_option usd (xp_cache_write extended)\<rparr>)\<rparr>)"
proof -
  from assms obtain releaseDate where
    date: "timestampToDate P (vn_created apiModel) = Some releaseDate"
    by (cases "timestampToDate P (vn_created apiModel)")
       (simp_all add: venice_mergeModel_def Let_def)
  with assms have m: "merged = the (venice_mergeModel P today apiModel existing)"
    by simp
  show ?thesis
    unfolding m using date by (simp add: venice_mergeModel_def Let_def)
qed

lemma vercel_mergeModel_returns:
  "(\<exists>merged. vercel_mergeModel P today apiModel existing = Some merged)
   \<longleftrightarrow> vercel_releaseDate P today apiModel existing \<noteq> None"
  by (cases "vercel_releaseDate P today apiModel existing")
     (simp_all add: vercel_mergeModel_def Let_def)

lemma vercel_mergeModel_fields:
  assumes "vercel_mergeModel P today apiModel existing = Some merged"
  shows "m_name merged = coalesce (Option.bind existing e_name) (vc_name apiModel)"
    and "m_family merged =
           (case Option.bind existing e_family of
              Some pinned \<Rightarrow> Some pinned
            | None \<Rightarrow> vercel_inferFamily (vc_id apiModel) (vc_name apiModel))"
    and "m_attachment merged =
           coalesce (Option.bind existing e_attachment)
             (''vision'' \<in> set (vc_tags apiModel) \<or> ''file-input'' \<in> set (vc_tags apiModel))"
    and "m_reasoning merged =
           coalesce (Option.bind existing e_reasoning) (''reasoning'' \<in> set (vc_tags apiModel))"
    and "m_tool_call merged =
           coalesce (Option.bind existing e_tool_call) (''tool-use'' \<in> set (vc_tags apiModel))"
    and "m_structured_output merged = Option.bind existing e_structured_output"
    and "m_knowledge merged =
           (if Option.bind existing e_knowledge = Some [] then None
            else Option.bind existing e_knowledge)"
    and "Some (m_release_date merged) = vercel_releaseDate P today apiModel existing"
    and "m_last_updated merged = today"
    and "m_open_weights merged = coalesce (Option.bind existing e_open_weights) False"
    and "m_interleaved merged = Option.bind existing e_interleaved"
    and "m_status merged =
           (if Option.bind existing e_status = Some [] then None
            else Option.bind existing e_status)"
    and "m_cost merged = vercel_cost P (vc_pricing apiModel)"
    and "ml_context (m_limit merged) =
           (if vc_context_window apiModel > 0 then vc_context_window apiModel
            else coalesce (Option.bind (Option.bind existing e_limit) el_context) 0)"
    and "ml_output (m_limit merged) =
           (if vc_max_tokens apiModel > 0 then vc_max_tokens apiModel
            else coalesce (Option.bind (Option.bind existing e_limit) el_output) 0)"
    and "mmod_input (m_modalities merged) = vercel_buildInputModalities (vc_tags apiModel)"
proof -
  from assms obtain release where
    date: "vercel_releaseDate P today apiModel existing = Some release"
    by (cases "vercel_releaseDate P today apiModel existing")
       (simp_all add: vercel_mergeModel_def Let_def)
  with assms have m: "merged = the (vercel_mergeModel P today apiModel existing)"
    by simp
  show "m_name merged = coalesce (Option.bind existing e_name) (vc_name apiModel)"
    and "m_family merged =
           (case Option.bind existing e_family of
              Some pinned \<Rightarrow> Some pinned
            | None \<Rightarrow> vercel_inferFamily (vc_id apiModel) (vc_name apiModel))"
    and "m_attachment merged =
           coalesce (Option.bind existing e_attachment)
             (''vision'' \<in> set (vc_tags apiModel) \<or> ''file-input'' \<in> set (vc_tags apiModel))"
    and "m_reasoning merged =
           coalesce (Option.bind existing e_reasoning) (''reasoning'' \<in> set (vc_tags apiModel))"
    and "m_tool_call merged =
           coalesce (Option.bind existing e_tool_call) (''tool-use'' \<in> set (vc_tags apiModel))"
    and "m_structured_output merged = Option.bind existing e_structured_output"
    and "m_knowledge merged =
           (if Option.bind existing e_knowledge = Some [] then None
            else Option.bind existing e_knowledge)"
    and "Some (m_release_date merged) = vercel_releaseDate P today apiModel existing"
    and "m_last_updated merged = today"
    and "m_open_weights merged = coalesce (Option.bind existing e_open_weights) False"
    and "m_interleaved merged = Option.bind existing e_interleaved"
    and "m_status merged =
           (if Option.bind existing e_status = Some [] then None
            else Option.bind existing e_status)"
    and "m_cost merged = vercel_cost P (vc_pricing apiModel)"
    and "ml_context (m_limit merged) =
           (if vc_context_window apiModel > 0 then vc_context_window apiModel
            else coalesce (Option.bind (Option.bind existing e_limit) el_context) 0)"
    and "ml_output (m_limit merged) =
           (if vc_max_tokens apiModel > 0 then vc_max_tokens apiModel
            else coalesce (Option.bind (Option.bind existing e_limit) el_output) 0)"
    and "mmod_input (m_modalities merged) = vercel_buildInputModalities (vc_tags apiModel)"
    unfolding m using date
    by (simp_all add: vercel_mergeModel_def Let_def truthyString_def split: option.split)
qed

subsection \<open>Field rules\<close>

text \<open>
  Claim C1 says that every reconciler keeps an existing \<open>limit.output\<close> that is
  smaller than the freshly computed proposal. The Vercel reconciler does not: with
  an existing limit of 4000 and 8000 from the source, the merged limit is 8000.
\<close>

theorem vercel_output_limit_not_sticky:
  "Option.bind (e_limit (noExisting\<lparr>e_limit := Some (outputLimitOnly 4000)\<rparr>)) el_output
     = Some 4000
   \<and> vc_max_tokens vercelSample = 8000
   \<and> map_option m_limit
        (vercel_mergeModel bun ''2026-01-15'' vercelSample
           (Some (noExisting\<lparr>e_limit := Some (outputLimitOnly 4000)\<rparr>)))
       = Some \<lparr>ml_context = 128000, ml_output = 8000\<rparr>"
  by (simp add: vercel_sample_merge outputLimitOnly_def) (simp add: vercelSample_def)

text \<open>
  Claim C1, amended. In the Venice reconciler the proposal is the floor of a
  quarter of the available context tokens; an existing \<open>limit.output\<close> that is set
  and smaller than the proposal is kept, otherwise the proposal is used. In the
  Vercel reconciler the merged \<open>limit.output\<close> is the source's \<open>max_tokens\<close> whenever
  that is positive, and the existing \<open>limit.output\<close>, or 0, otherwise.
\<close>

theorem output_limit_rules:
  "(venice_mergeModel P today apiModel existing = Some merged \<longrightarrow>
      (\<forall>existingOutput.
          Option.bind (Option.bind existing e_limit) el_output = Some existingOutput
          \<and> existingOutput < of_int \<lfloor>ms_availableContextTokens (vn_model_spec apiModel) / 4\<rfloor>
          \<longrightarrow> ml_output (m_limit merged) = existingOutput)
      \<and> ((\<forall>existingOutput.
             Option.bind (Option.bind existing e_limit) el_output = Some existingOutput
             \<longrightarrow> \<not> existingOutput
                      < of_int \<lfloor>ms_availableContextTokens (vn_model_spec apiModel) / 4\<rfloor>)
           \<longrightarrow> ml_output (m_limit merged)
                 = of_int \<lfloor>ms_availableContextTokens (vn_model_spec apiModel) / 4\<rfloor>))
   \<and> (vercel_mergeModel P today vercelModel existing = Some merged' \<longrightarrow>
        ml_output (m_limit merged') =
          (if vc_max_tokens vercelModel > 0 then vc_max_tokens vercelModel
           else coalesce (Option.bind (Option.bind existing e_limit) el_output) 0))"
proof (intro conjI impI allI)
  fix existingOutput
  assume "venice_mergeModel P today apiModel existing = Some merged"
    and "Option.bind (Option.bind existing e_limit) el_output = Some existingOutput
         \<and> existingOutput < of_int \<lfloor>ms_availableContextTokens (vn_model_spec apiModel) / 4\<rfloor>"
  then show "ml_output (m_limit merged) = existingOutput"
    by (simp add: venice_mergeModel_fields(14))
next
  assume "venice_mergeModel P today apiModel existing = Some merged"
    and "\<forall>existingOutput.
           Option.bind (Option.bind existing e_limit) el_output = Some existingOutput
           \<longrightarrow> \<not> existingOutput
                    < of_int \<lfloor>ms_availableContextTokens (vn_model_spec apiModel) / 4\<rfloor>"
  then show "ml_output (m_limit merged)
             = of_int \<lfloor>ms_availableContextTokens (vn_model_spec apiModel) / 4\<rfloor>"
    by (simp add: venice_mergeModel_fields(14) split: option.splits)
next
  assume "vercel_mergeModel P today vercelModel existing = Some merged'"
  then show "ml_output (m_limit merged') =
          (if vc_max_tokens vercelModel > 0 then vc_max_tokens vercelModel
           else coalesce (Option.bind (Option.bind existing e_limit) el_output) 0)"
    by (rule vercel_mergeModel_fields(15))
qed

text \<open>
  Venice with a context of 32000 tokens proposes 8000: an existing limit of 4000 is
  kept and without an existing record the limit is 8000. Vercel with no
  \<open>max_tokens\<close> from the source keeps the existing 4000.
\<close>

theorem output_limit_rules_witness:
  "of_int \<lfloor>ms_availableContextTokens (vn_model_spec veniceSample) / 4\<rfloor> = (8000 :: rat)
   \<and> map_option (\<lambda>m. ml_output (m_limit m))
        (venice_mergeModel bun ''2026-01-15'' veniceSample
           (Some (noExisting\<lparr>e_limit := Some (outputLimitOnly 4000)\<rparr>)))
       = Some 4000
   \<and> map_option (\<lambda>m. ml_output (m_limit m))
        (venice_mergeModel bun ''2026-01-15'' veniceSample None)
       = Some 8000
   \<and> map_option (\<lambda>m. ml_output (m_limit m))
        (vercel_mergeModel bun ''2026-01-15'' (vercelSample\<lparr>vc_max_tokens := 0\<rparr>)
           (Some (noExisting\<lparr>e_limit := Some (outputLimitOnly 4000)\<rparr>)))
       = Some 4000"
proof -
  let ?tight = "Some (noExisting\<lparr>e_limit := Some (outputLimitOnly 4000)\<rparr>)"
  let ?zero = "vercelSample\<lparr>vc_max_tokens := 0\<rparr>"
  obtain m1 where m1: "venice_mergeModel bun ''2026-01-15'' veniceSample ?tight = Some m1"
    by (simp add: venice_sample_merge)
  obtain m2 where m2: "venice_mergeModel bun ''2026-01-15'' veniceSample None = Some m2"
    by (simp add: venice_sample_merge)
  have "vercel_releaseDate bun ''2026-01-15'' ?zero ?tight \<noteq> None"
    by (simp add: vercel_releaseDate_def vercelSample_def sample_dates)
  then obtain m3 where m3: "vercel_mergeModel bun ''2026-01-15'' ?zero ?tight = Some m3"
    using vercel_mergeModel_returns by blast
  have p: "of_int \<lfloor>ms_availableContextTokens (vn_model_spec veniceSample) / 4\<rfloor> = (8000 :: rat)"
    by (simp add: veniceSample_def)
  have "ml_output (m_limit m1) = 4000"
    using output_limit_rules [of bun "''2026-01-15''" veniceSample ?tight m1] m1
    by (simp add: noExisting_def outputLimitOnly_def p)
  moreover have "ml_output (m_limit m2) = 8000"
    using output_limit_rules [of bun "''2026-01-15''" veniceSample None m2] m2
    by (simp add: p)
  moreover have "ml_output (m_limit m3) = 4000"
    using output_limit_rules [of bun "''2026-01-15''" _ ?tight _ ?zero m3] m3
    by (simp add: noExisting_def outputLimitOnly_def)
  ultimately show ?thesis
    using m1 m2 m3 p by simp
qed

text \<open>
  Claim C2 says that the merged name is the source's name whenever the source has
  one. The Vercel reconciler prefers the name of the existing record.
\<close>

theorem vercel_existing_name_wins:
  "vc_name vercelSample = ''GPT-4o''
   \<and> map_option m_name
        (vercel_mergeModel bun ''2026-01-15'' vercelSample
           (Some (noExisting\<lparr>e_name := Some ''GPT-4o (ours)''\<rparr>)))
       = Some ''GPT-4o (ours)''"
  by (simp add: vercel_sample_merge) (simp add: vercelSample_def)

text \<open>
  Claim C2, amended. The Venice reconciler always takes the name the source
  gives. The Vercel reconciler takes the name of the existing record when it has
  one, and the source's name only when there is no existing name.
\<close>

theorem name_rules:
  "(venice_mergeModel P today apiModel existing = Some merged \<longrightarrow>
      m_name merged = ms_name (vn_model_spec apiModel))
   \<and> (vercel_mergeModel P today vercelModel existing = Some merged' \<longrightarrow>
        (\<forall>pinned. Option.bind existing e_name = Some pinned \<longrightarrow> m_name merged' = pinned)
        \<and> (Option.bind existing e_name = None \<longrightarrow> m_name merged' = vc_name vercelModel))"
  by (auto simp: venice_mergeModel_fields(1) vercel_mergeModel_fields(1))

text \<open>
  Venice ignores an existing name; Vercel without an existing name takes the
  source's.
\<close>

theorem name_rules_witness:
  "map_option m_name
     (venice_mergeModel bun ''2026-01-15'' veniceSample
        (Some (noExisting\<lparr>e_name := Some ''Medium (ours)''\<rparr>)))
     = Some ''Venice Medium''
   \<and> map_option m_name (vercel_mergeModel bun ''2026-01-15'' vercelSample (Some noExisting))
       = Some ''GPT-4o''"
proof -
  let ?named = "Some (noExisting\<lparr>e_name := Some ''Medium (ours)''\<rparr>)"
  obtain m1 where m1: "venice_mergeModel bun ''2026-01-15'' veniceSample ?named = Some m1"
    by (simp add: venice_sample_merge)
  obtain m2 where m2:
    "vercel_mergeModel bun ''2026-01-15'' vercelSample (Some noExisting) = Some m2"
    by (simp add: vercel_sample_merge)
  have "m_name m1 = ''Venice Medium''"
    using name_rules [of bun "''2026-01-15''" veniceSample ?named m1] m1
    by (simp add: veniceSample_def)
  moreover have "m_name m2 = ''GPT-4o''"
    using name_rules [of bun "''2026-01-15''" _ "Some noExisting" _ vercelSample m2] m2
    by (simp add: noExisting_def vercelSample_def)
  ultimately show ?thesis using m1 m2 by simp
qed

text \<open>
  What is used of the schema: a \<open>knowledge\<close> or a \<open>status\<close> it accepts is not the
  empty string, so JavaScript takes it for true.
\<close>

lemma schemaAccepts_truthy:
  assumes "schemaAccepts existing"
  shows "Option.bind existing e_knowledge \<noteq> Some []"
    and "Option.bind existing e_status \<noteq> Some []"
  using assms
  by (auto simp: schemaAccepts_def matchesDate_def StatusValues_def
      split: option.splits Option.bind_splits)

text \<open>
  Claim C4. For every existing record that the schema accepts, and when there is
  no existing record, \<open>knowledge\<close>, \<open>interleaved\<close> and \<open>status\<close> of the merged record
  are those of the existing record, in the Venice and in the Vercel reconciler:
  a field that is set there is copied, and a field that the existing record lacks
  is left out of the merged record, as is every one of the three when there is no
  existing record. The source record has no part in them.
\<close>

theorem pass_through_rules:
  assumes "schemaAccepts existing"
  shows "(venice_mergeModel P today apiModel existing = Some merged \<longrightarrow>
            m_knowledge merged = Option.bind existing e_knowledge
            \<and> m_interleaved merged = Option.bind existing e_interleaved
            \<and> m_status merged = Option.bind existing e_status)
         \<and> (vercel_mergeModel P today vercelModel existing = Some merged' \<longrightarrow>
              m_knowledge merged' = Option.bind existing e_knowledge
              \<and> m_interleaved merged' = Option.bind existing e_interleaved
              \<and> m_status merged' = Option.bind existing e_status)"
  using schemaAccepts_truthy [OF assms]
  by (simp add: venice_mergeModel_fields(7,11,12) vercel_mergeModel_fields(7,11,12))

text \<open>
  A curated record that the schema accepts keeps its three fields through both
  reconcilers, and a first merge has none of them.
\<close>

theorem pass_through_rules_witness:
  "schemaAccepts (Some curatedExisting)
   \<and> map_option (\<lambda>m. (m_knowledge m, m_interleaved m, m_status m))
        (venice_mergeModel bun ''2026-01-15'' veniceSample (Some curatedExisting))
       = Some (Some ''2024-10'', Some (Field ''reasoning_content''), Some ''beta'')
   \<and> map_option (\<lambda>m. (m_knowledge m, m_interleaved m, m_status m))
        (vercel_mergeModel bun ''2026-01-15'' vercelSample (Some curatedExisting))
       = Some (Some ''2024-10'', Some (Field ''reasoning_content''), Some ''beta'')
   \<and> map_option (\<lambda>m. (m_knowledge m, m_interleaved m, m_status m))
        (venice_mergeModel bun ''2026-01-15'' veniceSample None)
       = Some (None, None, None)"
proof -
  obtain m1 where m1:
    "venice_mergeModel bun ''2026-01-15'' veniceSample (Some curatedExisting) = Some m1"
    by (simp add: venice_sample_merge)
  obtain m2 where m2:
    "vercel_mergeModel bun ''2026-01-15'' vercelSample (Some curatedExisting) = Some m2"
    by (simp add: vercel_sample_merge)
  obtain m3 where m3: "venice_mergeModel bun ''2026-01-15'' veniceSample None = Some m3"
    by (simp add: venice_sample_merge)
  have "(m_knowledge m1, m_interleaved m1, m_status m1)
        = (Some ''2024-10'', Some (Field ''reasoning_content''), Some ''beta'')"
    using pass_through_rules [of "Some curatedExisting" bun "''2026-01-15''" veniceSample m1] m1
    by (simp add: curatedExisting_def noExisting_def schemaAccepts_def matchesDate_def
        asciiDigit_def StatusValues_def)
  moreover have "(m_knowledge m2, m_interleaved m2, m_status m2)
        = (Some ''2024-10'', Some (Field ''reasoning_content''), Some ''beta'')"
    using pass_through_rules
      [of "Some curatedExisting" bun "''2026-01-15''" _ _ vercelSample m2] m2
    by (simp add: curatedExisting_def noExisting_def schemaAccepts_def matchesDate_def
        asciiDigit_def StatusValues_def)
  moreover have "(m_knowledge m3, m_interleaved m3, m_status m3) = (None, None, None)"
    using pass_through_rules [of None bun "''2026-01-15''" veniceSample m3] m3
    by (simp add: schemaAccepts_def)
  moreover have "schemaAccepts (Some curatedExisting)"
    by (simp add: curatedExisting_def noExisting_def schemaAccepts_def matchesDate_def
        asciiDigit_def StatusValues_def)
  ultimately show ?thesis using m1 m2 m3 by simp
qed

subsection \<open>A second run\<close>

lemma venice_no_changes:
  assumes "m_name m2 = m_name m1" and "m_family m2 = m_family m1"
    and "m_attachment m2 = m_attachment m1" and "m_reasoning m2 = m_reasoning m1"
    and "m_tool_call m2 = m_tool_call m1"
    and "m_structured_output m2 = m_structured_output m1"
    and "m_open_weights m2 = m_open_weights m1"
    and "m_release_date m2 = m_release_date m1"
    and "m_cost m2 = m_cost m1"
    and "ml_context (m_limit m2) = ml_context (m_limit m1)"
    and "ml_output (m_limit m2) = ml_output (m_limit m1)"
    and "mmod_input (m_modalities m2) = mmod_input (m_modalities m1)"
  shows "venice_detectChanges (Some (asExisting m1)) m2 = []"
proof (cases "m_cost m1")
  case None
  with assms show ?thesis
    by (simp add: venice_detectChanges_def venice_compare_def Let_def
        asExisting_def ofString_def ofBoolean_def ofNumber_def ofArray_def)
next
  case (Some c)
  with assms show ?thesis
    by (cases "mc_context_over_200k c")
       (simp_all add: venice_detectChanges_def venice_compare_def Let_def asExisting_def
          asExistingCost_def asExistingTier_def ofString_def ofBoolean_def ofNumber_def
          ofArray_def)
qed

lemma vercel_no_changes:
  assumes "m_name m2 = m_name m1" and "m_family m2 = m_family m1"
    and "m_attachment m2 = m_attachment m1" and "m_reasoning m2 = m_reasoning m1"
    and "m_tool_call m2 = m_tool_call m1"
    and "m_structured_output m2 = m_structured_output m1"
    and "m_open_weights m2 = m_open_weights m1"
    and "m_release_date m2 = m_release_date m1"
    and "m_cost m2 = m_cost m1"
    and "ml_context (m_limit m2) = ml_context (m_limit m1)"
    and "ml_output (m_limit m2) = ml_output (m_limit m1)"
    and "mmod_input (m_modalities m2) = mmod_input (m_modalities m1)"
  shows "vercel_detectChanges (Some (asExisting m1)) m2 = []"
proof -
  have same: "\<not> isMaterialPriceDiff (ofNumber v) (ofNumber v)" for v
    by (cases v)
       (simp_all add: isMaterialPriceDiff_def ofNumber_def binary64_zero not_less
          less_imp_le [OF EPSILON_pos])
  have plain: "vercel_compare fld v v = []" if "\<not> prefix ''cost.'' fld" for fld v
    using that by (simp add: vercel_compare_def)
  have price: "vercel_compare fld (ofNumber v) (ofNumber v) = []" for fld v
    by (simp add: vercel_compare_def same)
  have cost:
    "Option.bind (e_cost (asExisting m1)) ec_input = map_option mc_input (m_cost m1)"
    "Option.bind (e_cost (asExisting m1)) ec_output = map_option mc_output (m_cost m1)"
    "Option.bind (e_cost (asExisting m1)) ec_cache_read = Option.bind (m_cost m1) mc_cache_read"
    "Option.bind (e_cost (asExisting m1)) ec_cache_write
       = Option.bind (m_cost m1) mc_cache_write"
    by (cases "m_cost m1"; simp add: asExisting_def asExistingCost_def)+
  have rest:
    "ofString (e_name (asExisting m1)) = JString (m_name m1)"
    "e_family (asExisting m1) = m_family m1"
    "ofBoolean (e_attachment (asExisting m1)) = JBoolean (m_attachment m1)"
    "ofBoolean (e_reasoning (asExisting m1)) = JBoolean (m_reasoning m1)"
    "ofBoolean (e_tool_call (asExisting m1)) = JBoolean (m_tool_call m1)"
    "e_structured_output (asExisting m1) = m_structured_output m1"
    "ofBoolean (e_open_weights (asExisting m1)) = JBoolean (m_open_weights m1)"
    "ofString (e_release_date (asExisting m1)) = JString (m_release_date m1)"
    "ofNumber (Option.bind (e_limit (asExisting m1)) el_context)
       = JNumber (ml_context (m_limit m1))"
    "ofNumber (Option.bind (e_limit (asExisting m1)) el_output)
       = JNumber (ml_output (m_limit m1))"
    "ofArray (Option.bind (e_modalities (asExisting m1)) emod_input)
       = JArray (mmod_input (m_modalities m1))"
    by (simp_all add: asExisting_def ofString_def ofBoolean_def ofNumber_def ofArray_def)
  show ?thesis
    unfolding vercel_detectChanges_def option.case Let_def cost rest assms
    by (simp add: plain price)
qed

lemma venice_second_run:
  assumes m1: "venice_mergeModel P d1 source existing = Some m1"
  shows "\<exists>m2. venice_mergeModel P d2 source (Some (asExisting m1)) = Some m2
              \<and> venice_detectChanges (Some (asExisting m1)) m2 = []"
proof -
  from m1 have "timestampToDate P (vn_created source) \<noteq> None"
    using venice_mergeModel_returns by blast
  then obtain m2 where m2: "venice_mergeModel P d2 source (Some (asExisting m1)) = Some m2"
    using venice_mergeModel_returns by blast
  note f1 = venice_mergeModel_fields [OF m1] and f2 = venice_mergeModel_fields [OF m2]
  have family: "m_family m2 = m_family m1"
    by (simp add: f1(2) f2(2) asExisting_def split: option.split)
  have "Some (m_release_date m2) = Some (m_release_date m1)"
    by (simp add: f1(8) f2(8))
  then have release: "m_release_date m2 = m_release_date m1"
    by simp
  have cost: "m_cost m2 = m_cost m1"
    by (simp add: venice_mergeModel_cost [OF m1] venice_mergeModel_cost [OF m2])
  have "ml_output (m_limit m1)
        \<le> of_int \<lfloor>ms_availableContextTokens (vn_model_spec source) / 4\<rfloor>"
    by (simp add: f1(14) split: option.split)
  then have out: "ml_output (m_limit m2) = ml_output (m_limit m1)"
    by (simp add: f2(14) asExisting_def)
  have inp: "mmod_input (m_modalities m2) = mmod_input (m_modalities m1)"
    by (simp add: f1(15) f2(15) asExisting_def Let_def)
  have "venice_detectChanges (Some (asExisting m1)) m2 = []"
    by (rule venice_no_changes)
       (simp_all add: family release cost out inp f1(1,3,4,5,6,10,13) f2(1,3,4,5,6,10,13))
  with m2 show ?thesis by blast
qed

lemma vercel_second_run:
  assumes m1: "vercel_mergeModel P d1 source existing = Some m1"
  shows "\<exists>m2. vercel_mergeModel P d2 source (Some (asExisting m1)) = Some m2
              \<and> vercel_detectChanges (Some (asExisting m1)) m2 = []"
proof -
  note f1 = vercel_mergeModel_fields [OF m1]
  have date2: "vercel_releaseDate P d2 source (Some (asExisting m1)) = Some (m_release_date m1)"
    using f1(8) by (simp add: vercel_releaseDate_def asExisting_def split: if_splits)
  then obtain m2 where m2: "vercel_mergeModel P d2 source (Some (asExisting m1)) = Some m2"
    using vercel_mergeModel_returns [of P d2 source "Some (asExisting m1)"] by auto
  note f2 = vercel_mergeModel_fields [OF m2]
  have release: "m_release_date m2 = m_release_date m1"
    using f2(8) date2 by simp
  have family: "m_family m2 = m_family m1"
    by (simp add: f1(2) f2(2) asExisting_def split: option.split)
  have ctx: "ml_context (m_limit m2) = ml_context (m_limit m1)"
    by (simp add: f1(14) f2(14) asExisting_def)
  have out: "ml_output (m_limit m2) = ml_output (m_limit m1)"
    by (simp add: f1(15) f2(15) asExisting_def)
  have "vercel_detectChanges (Some (asExisting m1)) m2 = []"
    by (rule vercel_no_changes)
       (simp_all add: release family ctx out f1(13,16) f2(1,3,4,5,6,10,13,16)
          asExisting_def)
  with m2 show ?thesis by blast
qed

text \<open>
  Claim C5. For every source record, existing record and pair of run dates: when
  the first reconciliation returns \<open>m1\<close>, the reconciliation of the same source
  against \<open>m1\<close> on the second date returns too, and the change detector finds no
  change between \<open>m1\<close> and its result. This holds for the Venice and for the Vercel
  script; \<open>m1\<close> is read as a persisted record field by field.
\<close>

theorem second_run_reports_no_change:
  "(venice_mergeModel P d1 veniceSource existing = Some m1 \<longrightarrow>
      (\<exists>m2. venice_mergeModel P d2 veniceSource (Some (asExisting m1)) = Some m2
            \<and> venice_detectChanges (Some (asExisting m1)) m2 = []))
   \<and> (vercel_mergeModel P d1 vercelSource existing = Some m1' \<longrightarrow>
        (\<exists>m2. vercel_mergeModel P d2 vercelSource (Some (asExisting m1')) = Some m2
              \<and> vercel_detectChanges (Some (asExisting m1')) m2 = []))"
  using venice_second_run vercel_second_run by blast

text \<open>
  A first run over a curated record reports changes; the second run, two weeks
  later, reports none.
\<close>

theorem second_run_reports_no_change_witness:
  "(\<exists>m1 m2. venice_mergeModel bun ''2026-01-15'' veniceSample (Some curatedExisting) = Some m1
       \<and> venice_detectChanges (Some curatedExisting) m1 \<noteq> []
       \<and> venice_mergeModel bun ''2026-02-01'' veniceSample (Some (asExisting m1)) = Some m2
       \<and> venice_detectChanges (Some (asExisting m1)) m2 = [])
   \<and> (\<exists>m1 m2. vercel_mergeModel bun ''2026-01-15'' vercelSample (Some curatedExisting) = Some m1
       \<and> vercel_detectChanges (Some curatedExisting) m1 \<noteq> []
       \<and> vercel_mergeModel bun ''2026-02-01'' vercelSample (Some (asExisting m1)) = Some m2
       \<and> vercel_detectChanges (Some (asExisting m1)) m2 = [])"
proof -
  obtain m1 where m1:
    "venice_mergeModel bun ''2026-01-15'' veniceSample (Some curatedExisting) = Some m1"
    by (simp add: venice_sample_merge)
  obtain n1 where n1:
    "vercel_mergeModel bun ''2026-01-15'' vercelSample (Some curatedExisting) = Some n1"
    by (simp add: vercel_sample_merge)
  have "venice_compare ''name'' (ofString (e_name curatedExisting)) (JString (m_name m1)) \<noteq> []"
    by (simp add: venice_compare_def curatedExisting_def noExisting_def ofString_def)
  then have first: "venice_detectChanges (Some curatedExisting) m1 \<noteq> []"
    by (simp add: venice_detectChanges_def Let_def)
  have "vercel_compare ''name'' (ofString (e_name curatedExisting)) (JString (m_name n1)) \<noteq> []"
    by (simp add: vercel_compare_def shouldSkipZero_def SkipZeroFields_def curatedExisting_def
        noExisting_def ofString_def)
  then have first': "vercel_detectChanges (Some curatedExisting) n1 \<noteq> []"
    by (simp add: vercel_detectChanges_def Let_def)
  from second_run_reports_no_change
    [of bun "''2026-01-15''" veniceSample "Some curatedExisting" m1 "''2026-02-01''"
        vercelSample n1]
    m1 n1 first first'
  show ?thesis by blast
qed

subsection \<open>The family of the Venice sample\<close>

text \<open>The family table in the order in which \<open>inferFamily\<close> walks it.\<close>

lemma sortedFamilies_eq:
  "sortedFamilies =
    [''sonar-deep-research'', ''gemini-flash-lite'', ''deepseek-thinking'',
     ''gemini-embedding'', ''stable-diffusion'', ''magistral-medium'', ''gpt-codex-spark'',
     ''sonar-reasoning'', ''codestral-embed'', ''magistral-small'', ''gpt-codex-mini'',
     ''mistral-medium'', ''text-embedding'', ''claude-sonnet'', ''kimi-thinking'',
     ''mistral-large'', ''mistral-small'', ''command-light'', ''mistral-embed'',
     ''dream-machine'', ''nemoretriever'', ''una-cybertron'', ''trinity-mini'',
     ''claude-haiku'', ''gemini-flash'', ''mistral-nemo'', ''minimax-free'',
     ''cohere-embed'', ''model-router'', ''nousresearch'', ''claude-opus'',
     ''grok-vision'', ''titan-embed'', ''dreamshaper'', ''nano-banana'', ''neural-chat'',
     ''gemini-pro'', ''nova-micro'', ''solar-mini'', ''elevenlabs'', ''distilbert'',
     ''indictrans'', ''smart-turn'', ''big-pickle'', ''gpt-codex'', ''glm-flash'',
     ''kimi-free'', ''ministral'', ''codestral'', ''grok-beta'', ''nova-lite'',
     ''command-r'', ''command-a'', ''sonar-pro'', ''solar-pro'', ''magistral'',
     ''intellect'', ''kat-coder'', ''opengvlab'', ''topazlabs'', ''sourceful'',
     ''gpt-mini'', ''gpt-nano'', ''glm-free'', ''deepseek'', ''devstral'', ''nova-pro'',
     ''nemotron'', ''ideogram'', ''openchat'', ''starling'', ''sherlock'', ''baichuan'',
     ''sqlcoder'', ''parakeet'', ''chutesai'', ''trinity'', ''gpt-pro'', ''gpt-oss'',
     ''glm-air'', ''mistral'', ''pixtral'', ''mixtral'', ''command'', ''minimax'',
     ''hunyuan'', ''granite'', ''recraft'', ''whisper'', ''melotts'', ''mercury'',
     ''longcat'', ''phoenix'', ''trinity'', ''skywork'', ''discolm'', ''osmosis'',
     ''voxtral'', ''rednote'', ''tngtech'', ''unsloth'', ''allenai'', ''palmyra'',
     ''o-mini'', ''claude'', ''gemini'', ''exaone'', ''voyage'', ''dall-e'', ''imagen'',
     ''runway'', ''hermes'', ''zephyr'', ''cogito'', ''sarvam'', ''falcon'', ''resnet'',
     ''tstars'', ''venice'', ''qwerky'', ''liquid'', ''o-pro'', ''glm-z'', ''llama'',
     ''gemma'', ''jamba'', ''titan'', ''sonar'', ''solar'', ''plamo'', ''lyria'',
     ''ernie'', ''lucid'', ''llava'', ''morph'', ''alpha'', ''pangu'', ''glmv'', ''qwen'',
     ''kimi'', ''grok'', ''nova'', ''reka'', ''step'', ''flux'', ''sora'', ''pony'',
     ''mimo'', ''aura'', ''jais'', ''bart'', ''seed'', ''ling'', ''ring'', ''auto'',
     ''tako'', ''oswe'', ''gpt'', ''glm'', ''phi'', ''bge'', ''veo'', ''qvq'', ''m2m'',
     ''ray'', ''rnj'', ''mai'', ''yi'', ''v0'', ''o'']"
  by code_simp

lemma venice_sample_family:
  "venice_inferFamily ''mistral-31-24b'' ''Venice Medium'' = Some ''mistral''"
  unfolding venice_inferFamily_def sortedFamilies_eq by code_simp

text \<open>
  Claim C3: a family pinned in the existing record wins, and the inferred family
  is used only when the existing record has none. The Venice script's own README
  lists \<open>family\<close> among the preserved fields, \<^verbatim>\<open>Inferred from model ID if not already set\<close>,
  and the Vercel and Friendli scripts do so; the Venice \<open>mergeModel\<close> computes
  \<^verbatim>\<open>inferred ?? existing?.family\<close> instead. For the Venice model \<^verbatim>\<open>mistral-31-24b\<close> with
  the family pinned to \<^verbatim>\<open>mistral-small\<close>, the merged family is the inferred
  \<^verbatim>\<open>mistral\<close>.
\<close>

theorem venice_inferred_family_replaces_pinned:
  "e_family (noExisting\<lparr>e_family := Some ''mistral-small''\<rparr>) = Some ''mistral-small''
   \<and> map_option m_family
        (venice_mergeModel bun ''2026-01-15'' veniceSample
           (Some (noExisting\<lparr>e_family := Some ''mistral-small''\<rparr>)))
       = Some (Some ''mistral'')"
  by (simp add: venice_sample_merge venice_sample_family)


section \<open>The change detectors\<close>


lemma ofValue_eq [simp]:
  "(ofString s = JString t) = (s = Some t)"
  "(ofBoolean b = JBoolean c) = (b = Some c)"
  "(ofNumber n = JNumber k) = (n = Some k)"
  "(ofArray a = JArray l) = (a = Some l)"
  "(ofString s = ofString s') = (s = s')"
  "(ofBoolean b = ofBoolean b') = (b = b')"
  "(ofNumber n = ofNumber n') = (n = n')"
  by (auto simp: ofString_def ofBoolean_def ofNumber_def ofArray_def split: option.splits)

lemma venice_compare_Nil [simp]: "(venice_compare fld a b = []) = (a = b)"
  by (simp add: venice_compare_def)


















section \<open>The sync drivers\<close>

subsection \<open>Dry run and real run\<close>


lemma sameOutcome_refl [simp]: "sameOutcome st st"
  by (simp add: sameOutcome_def)





lemma vercel_step_skipped:
  "vc_type apiModel = Image \<or> vc_type apiModel = Video \<Longrightarrow>
   vercel_step P today dryRun newOnly apiModel st = Some st"
  by (simp add: vercel_step_def)
















subsection \<open>Image and video models\<close>

lemma vercel_step_ids:
  assumes "vercel_step P today dryRun newOnly apiModel st = Some st'"
  shows "rs_apiModelIds st' =
           rs_apiModelIds st \<union> vercel_relativePath ` set (vercel_processed [apiModel])"
proof (cases "vc_type apiModel = Image \<or> vc_type apiModel = Video")
  case True
  with assms show ?thesis
    by (auto simp: vercel_step_def vercel_processed_def)
next
  case False
  let ?existing = "loadExistingModel (rs_store st) (vercel_relativePath apiModel)"
  from False assms obtain merged where
    "vercel_mergeModel P today apiModel ?existing = Some merged"
    by (cases "vercel_mergeModel P today apiModel ?existing")
       (auto simp: vercel_step_def Let_def)
  with False assms show ?thesis
    by (cases ?existing)
       (auto simp: vercel_step_def vercel_processed_def Let_def split: if_splits)
qed

lemma vercel_loop_ids:
  "vercel_loop P today dryRun newOnly apiModels st = Some st' \<Longrightarrow>
   rs_apiModelIds st' =
     rs_apiModelIds st \<union> vercel_relativePath ` set (vercel_processed apiModels)"
proof (induction apiModels arbitrary: st)
  case Nil
  then show ?case by (simp add: vercel_processed_def)
next
  case (Cons apiModel apiModels)
  from Cons.prems obtain mid where
    step: "vercel_step P today dryRun newOnly apiModel st = Some mid"
    and rest: "vercel_loop P today dryRun newOnly apiModels mid = Some st'"
    by (cases "vercel_step P today dryRun newOnly apiModel st") auto
  have "vercel_processed (apiModel # apiModels)
        = vercel_processed [apiModel] @ vercel_processed apiModels"
    by (simp add: vercel_processed_def)
  with Cons.IH [OF rest] vercel_step_ids [OF step] show ?case
    by auto
qed

text \<open>
  Claim C10 says that every image or video model of the catalog that has a file in
  the directory is reported as orphaned. It is not when a language or embedding
  model of the same catalog has the same id: the loop records the path for that
  model.
\<close>

theorem image_model_with_language_twin_is_not_orphaned:
  "vc_type (vercelSample\<lparr>vc_type := Image\<rparr>) = Image
   \<and> vercel_relativePath (vercelSample\<lparr>vc_type := Image\<rparr>) = ''openai/gpt-4o.toml''
   \<and> map_option snd
        (vercel_main bun ''2026-01-15'' True True [vercelSample\<lparr>vc_type := Image\<rparr>, vercelSample]
           [(''openai/gpt-4o.toml'', Parsed noExisting)])
       = Some \<lparr>s_created = 0, s_updated = 0, s_unchanged = 1, s_orphaned = []\<rparr>"
proof -
  obtain merged where
    "vercel_mergeModel bun ''2026-01-15'' vercelSample (Some noExisting) = Some merged"
    by (simp add: vercel_sample_merge)
  then show ?thesis
    by (simp add: vercel_main_def vercel_step_def initialState_def summarize_def
        orphanedFiles_def loadExistingModel_def vercel_relativePath_def Let_def)
       (simp add: vercelSample_def)
qed

text \<open>
  Claim C10, amended. The Vercel loop passes over a source model of type image or
  video before it records the model's path: the state is left as it was. So in
  every run that ends, an image or video model whose path is a file of the
  directory is reported as orphaned, provided no language or embedding model of
  the catalog has the same path.
\<close>

theorem image_and_video_records_are_orphaned:
  "(vc_type apiModel = Image \<or> vc_type apiModel = Video \<longrightarrow>
      vercel_step P today dryRun newOnly apiModel st = Some st)
   \<and> (vercel_main P today dryRun newOnly apiModels files = Some (final, summary)
       \<and> apiModel \<in> set apiModels
       \<and> (vc_type apiModel = Image \<or> vc_type apiModel = Video)
       \<and> vercel_relativePath apiModel \<in> fst ` set files
       \<and> vercel_relativePath apiModel \<notin> vercel_relativePath ` set (vercel_processed apiModels)
       \<longrightarrow> vercel_relativePath apiModel \<in> set (s_orphaned summary))"
proof (intro conjI impI)
  assume "vc_type apiModel = Image \<or> vc_type apiModel = Video"
  then show "vercel_step P today dryRun newOnly apiModel st = Some st"
    by (rule vercel_step_skipped)
next
  assume a: "vercel_main P today dryRun newOnly apiModels files = Some (final, summary)
       \<and> apiModel \<in> set apiModels
       \<and> (vc_type apiModel = Image \<or> vc_type apiModel = Video)
       \<and> vercel_relativePath apiModel \<in> fst ` set files
       \<and> vercel_relativePath apiModel \<notin> vercel_relativePath ` set (vercel_processed apiModels)"
  then have loop: "vercel_loop P today dryRun newOnly apiModels (initialState files) = Some final"
    and summary: "summary = summarize (remdups (map fst files)) final"
    by (auto simp: vercel_main_def Let_def split: option.splits)
  from vercel_loop_ids [OF loop]
  have "rs_apiModelIds final = vercel_relativePath ` set (vercel_processed apiModels)"
    by (simp add: initialState_def)
  with a show "vercel_relativePath apiModel \<in> set (s_orphaned summary)"
    by (simp add: summary summarize_def orphanedFiles_def)
qed

text \<open>
  The catalog still lists the image model \<^verbatim>\<open>openai/dall-e-3\<close>, the directory has its
  file, and the run reports the file as orphaned.
\<close>

theorem image_and_video_records_are_orphaned_witness:
  "vercelImage \<in> set [vercelSample, vercelImage]
   \<and> vc_type vercelImage = Image
   \<and> vercel_relativePath vercelImage = ''openai/dall-e-3.toml''
   \<and> map_option (\<lambda>run. s_orphaned (snd run))
        (vercel_main bun ''2026-01-15'' False False [vercelSample, vercelImage]
           [(''openai/dall-e-3.toml'', Parsed noExisting)])
       = Some [''openai/dall-e-3.toml'']"
proof -
  let ?files = "[(''openai/dall-e-3.toml'', Parsed noExisting)]"
  let ?catalog = "[vercelSample, vercelImage]"
  have image: "vc_type vercelImage = Image" "vc_type vercelSample = Language"
    by (simp_all add: vercelImage_def vercelSample_def)
  have path: "vercel_relativePath vercelImage = ''openai/dall-e-3.toml''"
    "vercel_relativePath vercelSample = ''openai/gpt-4o.toml''"
    by (simp_all add: vercel_relativePath_def vercelImage_def vercelSample_def)
  have processed: "vercel_processed ?catalog = [vercelSample]"
    by (simp add: vercel_processed_def image)
  obtain first where
    first: "vercel_mergeModel bun ''2026-01-15'' vercelSample None = Some first"
    by (simp add: vercel_sample_merge)
  then obtain final summary where
    run: "vercel_main bun ''2026-01-15'' False False ?catalog ?files = Some (final, summary)"
    and orphans: "set (s_orphaned summary) \<subseteq> {''openai/dall-e-3.toml''}"
    and once: "length (s_orphaned summary) \<le> 1"
    by (simp add: vercel_main_def vercel_step_def initialState_def summarize_def
        orphanedFiles_def loadExistingModel_def image path Let_def)
  from image_and_video_records_are_orphaned
    [of vercelImage bun "''2026-01-15''" False False _ ?catalog ?files final summary]
    run image path processed
  have "''openai/dall-e-3.toml'' \<in> set (s_orphaned summary)"
    by simp
  with orphans once have "s_orphaned summary = [''openai/dall-e-3.toml'']"
    by (cases "s_orphaned summary") auto
  with run image path show ?thesis by simp
qed

end
